theory Spec2Isabelle
  imports Complex_Main
begin

section \<open>Python values\<close>

text \<open>
  The handler \<^verbatim>\<open>analyze_job_posting\<close> of \<^verbatim>\<open>src/data/schema/main.py\<close> works on the
  values that a JSON parser produces. A Python \<^verbatim>\<open>float\<close> is modelled by the rational
  number it denotes exactly (every finite double is a rational) or by one of the three
  special values the standard parser also accepts; Python compares a float with the
  integer 80 exactly, so the comparison of the model is the comparison of the program.
  A \<^verbatim>\<open>dict\<close> is an association list in insertion order.
\<close>

datatype pyfloat = Finite rat | NaN | PosInf | NegInf

datatype json =
    JNull
  | JBool bool
  | JInt int
  | JFloat pyfloat
  | JStr string
  | JArr "json list"
  | JObj "(string \<times> json) list"

text \<open>\<^verbatim>\<open>type(v).__name__\<close>, as it appears in the interpreter's error messages.\<close>

fun type_name :: "json \<Rightarrow> string" where
  "type_name JNull = ''NoneType''"
| "type_name (JBool b) = ''bool''"
| "type_name (JInt i) = ''int''"
| "type_name (JFloat f) = ''float''"
| "type_name (JStr s) = ''str''"
| "type_name (JArr xs) = ''list''"
| "type_name (JObj kvs) = ''dict''"

text \<open>
  Exceptions. Every exception of the handler ends in the one \<^verbatim>\<open>except Exception as e\<close>
  clause, which uses nothing but \<^verbatim>\<open>str(e)\<close>; the constructor records where the
  exception comes from: the interpreter (\<open>AttributeError\<close>, \<open>TypeError\<close>) or one of the
  libraries the handler calls (\<open>Raised\<close>, with the library's message).
\<close>

datatype exn = AttributeError string | TypeError string | Raised string

fun str_exn :: "exn \<Rightarrow> string" where
  "str_exn (AttributeError m) = m"
| "str_exn (TypeError m) = m"
| "str_exn (Raised m) = m"

definition sq :: "string \<Rightarrow> string" where
  "sq s = CHR 0x27 # s @ [CHR 0x27]"

text \<open>Truth value testing: \<^verbatim>\<open>not v\<close> is \<open>\<not> truthy v\<close>.\<close>

fun truthy :: "json \<Rightarrow> bool" where
  "truthy JNull = False"
| "truthy (JBool b) = b"
| "truthy (JInt i) = (i \<noteq> 0)"
| "truthy (JFloat (Finite r)) = (r \<noteq> 0)"
| "truthy (JFloat f) = True"
| "truthy (JStr s) = (s \<noteq> [])"
| "truthy (JArr xs) = (xs \<noteq> [])"
| "truthy (JObj kvs) = (kvs \<noteq> [])"

text \<open>
  \<^verbatim>\<open>v.get(k, d)\<close>: the lookup of a dict, with the default \<open>d\<close> for a missing key. Only a
  dict has the method; on any other value the attribute access raises.
\<close>

fun dict_get :: "json \<Rightarrow> string \<Rightarrow> json \<Rightarrow> exn + json" where
  "dict_get (JObj kvs) k d = Inr (case map_of kvs k of Some v \<Rightarrow> v | None \<Rightarrow> d)"
| "dict_get v k d =
     Inl (AttributeError (sq (type_name v) @ '' object has no attribute '' @ sq ''get''))"

text \<open>
  \<^verbatim>\<open>v < n\<close> and \<^verbatim>\<open>v >= n\<close> for an integer literal \<open>n\<close>. \<^verbatim>\<open>bool\<close> is a subclass of
  \<^verbatim>\<open>int\<close>; every comparison with NaN is false; the other types do not order with
  \<^verbatim>\<open>int\<close>. The handler uses \<open>py_lt\<close> only; \<open>py_ge\<close> is here to state its properties.
\<close>

fun py_lt :: "json \<Rightarrow> int \<Rightarrow> exn + bool" where
  "py_lt (JInt i) n = Inr (i < n)"
| "py_lt (JBool b) n = Inr ((if b then 1 else 0) < n)"
| "py_lt (JFloat (Finite r)) n = Inr (r < of_int n)"
| "py_lt (JFloat NaN) n = Inr False"
| "py_lt (JFloat PosInf) n = Inr False"
| "py_lt (JFloat NegInf) n = Inr True"
| "py_lt v n =
     Inl (TypeError (sq ''<'' @ '' not supported between instances of '' @
       sq (type_name v) @ '' and '' @ sq ''int''))"

fun py_ge :: "json \<Rightarrow> int \<Rightarrow> exn + bool" where
  "py_ge (JInt i) n = Inr (i \<ge> n)"
| "py_ge (JBool b) n = Inr ((if b then 1 else 0) \<ge> n)"
| "py_ge (JFloat (Finite r)) n = Inr (r \<ge> of_int n)"
| "py_ge (JFloat NaN) n = Inr False"
| "py_ge (JFloat PosInf) n = Inr True"
| "py_ge (JFloat NegInf) n = Inr False"
| "py_ge v n =
     Inl (TypeError (sq ''>='' @ '' not supported between instances of '' @
       sq (type_name v) @ '' and '' @ sq ''int''))"

section \<open>The request, the document store and the scoring model\<close>

text \<open>
  \<^verbatim>\<open>request.get_json()\<close> either raises (a body that is not JSON: the framework's
  exception, with its message) or returns the parsed body, \<^verbatim>\<open>None\<close> included.
\<close>

datatype request = BadBody string | JsonBody json

fun get_json :: "request \<Rightarrow> exn + json" where
  "get_json (BadBody m) = Inl (Raised m)"
| "get_json (JsonBody j) = Inr j"

text \<open>
  A document of the store is a dict whose values are JSON values, the sentinel
  \<^verbatim>\<open>firestore.SERVER_TIMESTAMP\<close> before the write, and the time the server put in its
  place after it.
\<close>

datatype fvalue = Plain json | SERVER_TIMESTAMP | Timestamp nat

type_synonym document = "(string \<times> fvalue) list"

fun stamp_value :: "nat \<Rightarrow> fvalue \<Rightarrow> fvalue" where
  "stamp_value t SERVER_TIMESTAMP = Timestamp t"
| "stamp_value t v = v"

definition stamp :: "nat \<Rightarrow> document \<Rightarrow> document" where
  "stamp t doc = map (\<lambda>(k, v). (k, stamp_value t v)) doc"

text \<open>
  What the handler does not compute itself, during one request:
  \<^item> \<open>MASTER_PROFILE\<close>: the profile file read at start-up;
  \<^item> \<open>py_format\<close>: how an f-string prints a value that is not a \<^verbatim>\<open>str\<close>;
  \<^item> \<open>generate_content\<close>: the scoring model, from the prompt to \<^verbatim>\<open>response.text\<close>
    (which may be \<^verbatim>\<open>None\<close>), or \<open>Inl\<close> the message of the exception it raises;
  \<^item> \<open>json_loads\<close>: \<^verbatim>\<open>json.loads\<close> on a string, or \<open>Inl\<close> the message of its exception;
  \<^item> \<open>set_raises\<close>: the message of the exception with which
    \<^verbatim>\<open>db.collection("application_log").document(k).set(doc)\<close> fails, \<open>None\<close> when the
    write goes through;
  \<^item> \<open>bad_document_id\<close>: the message of the exception that \<^verbatim>\<open>document(v)\<close> raises
    for a value \<open>v\<close> that is not a \<^verbatim>\<open>str\<close>;
  \<^item> \<open>server_time\<close>: the time the store assigns to a write of this request.

  A client that failed to start (the \<^verbatim>\<open>try\<close> statement of lines 12 to 17 leaves its name
  unbound) shows here as a service whose every call raises.
\<close>

record env =
  MASTER_PROFILE :: string
  py_format :: "json \<Rightarrow> string"
  generate_content :: "string \<Rightarrow> string + string option"
  json_loads :: "string \<Rightarrow> string + json"
  set_raises :: "string \<Rightarrow> document \<Rightarrow> string option"
  bad_document_id :: "json \<Rightarrow> string"
  server_time :: nat

text \<open>
  The world outside the handler: the collection \<^verbatim>\<open>application_log\<close>, one document per
  id, and the calls the handler has made to the two services, in order, whether they
  returned or raised.
\<close>

datatype effect = GenerateContent string | DocumentSet string document

record world =
  application_log :: "string \<rightharpoonup> document"
  calls :: "effect list"

type_synonym response = "json \<times> nat"

section \<open>The handler\<close>

text \<open>\<^verbatim>\<open>jsonify(d)\<close>: the response body is the dict as a JSON object.\<close>

definition jsonify :: "(string \<times> json) list \<Rightarrow> json" where
  "jsonify d = JObj d"

text \<open>Replacement fields of the f-string: a \<^verbatim>\<open>str\<close> is inserted as it is.\<close>

fun format_field :: "env \<Rightarrow> json \<Rightarrow> string" where
  "format_field env (JStr s) = s"
| "format_field env v = py_format env v"

definition build_prompt :: "env \<Rightarrow> json \<Rightarrow> string" where
  "build_prompt env job_description =
     [CHR 0x0A] @ ''        Candidate Profile (Context): '' @ MASTER_PROFILE env @
     [CHR 0x0A, CHR 0x0A] @ ''        Job Description to Score: '' @
     format_field env job_description @
     [CHR 0x0A, CHR 0x0A] @
     ''        Perform the scoring and identify missing keywords based on the six criteria.'' @
     [CHR 0x0A] @ ''        ''"

text \<open>
  \<^verbatim>\<open>json.loads(response.text)\<close>: the parser raises a \<^verbatim>\<open>TypeError\<close> of its own when the
  text is \<^verbatim>\<open>None\<close>.
\<close>

fun loads :: "env \<Rightarrow> string option \<Rightarrow> exn + json" where
  "loads env None =
     Inl (TypeError ''the JSON object must be str, bytes or bytearray, not NoneType'')"
| "loads env (Some t) = (case json_loads env t of Inl m \<Rightarrow> Inl (Raised m) | Inr j \<Rightarrow> Inr j)"

text \<open>
  \<^verbatim>\<open>db.collection("application_log").document(job_id).set(doc)\<close>. A document id is a
  string: for any other value the client raises when it builds the reference, before a
  write is issued. A write that goes through replaces the document at the id (\<^verbatim>\<open>set\<close>
  is called without \<^verbatim>\<open>merge\<close>), with the server's time for the sentinel.
\<close>

fun document_set :: "env \<Rightarrow> json \<Rightarrow> document \<Rightarrow> world \<Rightarrow> (exn + unit) \<times> world" where
  "document_set env (JStr k) doc w =
     (let w1 = w\<lparr>calls := calls w @ [DocumentSet k doc]\<rparr> in
      case set_raises env k doc of
        Some m \<Rightarrow> (Inl (Raised m), w1)
      | None \<Rightarrow>
          (Inr (), w1\<lparr>application_log := (application_log w1)(k \<mapsto> stamp (server_time env) doc)\<rparr>))"
| "document_set env v doc w = (Inl (Raised (bad_document_id env v)), w)"

text \<open>
  The two documents of the application gate: the dict literals of lines 74 to 79 and of
  lines 87 to 93.
\<close>

definition rejected_entry :: "json \<Rightarrow> document" where
  "rejected_entry weighted_score =
     [(''status'', Plain (JStr ''REJECTED'')),
      (''score'', Plain weighted_score),
      (''reason'', Plain (JStr ''Score below 80% threshold'')),
      (''timestamp'', SERVER_TIMESTAMP)]"

definition ready_entry :: "json \<Rightarrow> json \<Rightarrow> json \<Rightarrow> document" where
  "ready_entry weighted_score score_result job_data =
     [(''status'', Plain (JStr ''READY_FOR_SUBMISSION'')),
      (''score'', Plain weighted_score),
      (''gemini_details'', Plain score_result),
      (''job_data'', Plain job_data),
      (''timestamp'', SERVER_TIMESTAMP)]"

text \<open>Lines 73 to 98: the application gate, with the two writes and the two responses.\<close>

definition application_gate ::
  "env \<Rightarrow> json \<Rightarrow> json \<Rightarrow> json \<Rightarrow> json \<Rightarrow> world \<Rightarrow> (exn + response) \<times> world" where
  "application_gate env job_id job_data score_result weighted_score w =
     (case py_lt weighted_score 80 of
        Inl e \<Rightarrow> (Inl e, w)
      | Inr True \<Rightarrow>
          (case document_set env job_id (rejected_entry weighted_score) w of
             (Inl e, w') \<Rightarrow> (Inl e, w')
           | (Inr u, w') \<Rightarrow>
               (Inr (jsonify [(''status'', JStr ''rejected''), (''score'', weighted_score)], 200),
                w'))
      | Inr False \<Rightarrow>
          (case document_set env job_id (ready_entry weighted_score score_result job_data) w of
             (Inl e, w') \<Rightarrow> (Inl e, w')
           | (Inr u, w') \<Rightarrow>
               (Inr (jsonify [(''status'', JStr ''success''), (''score'', weighted_score),
                              (''details'', score_result)], 200),
                w')))"

text \<open>Lines 49 to 70: the prompt, the call of the model, the parse and the score.\<close>

definition scoring ::
  "env \<Rightarrow> json \<Rightarrow> json \<Rightarrow> json \<Rightarrow> world \<Rightarrow> (exn + response) \<times> world" where
  "scoring env job_id job_data job_description w =
     (let prompt = build_prompt env job_description;
          w1 = w\<lparr>calls := calls w @ [GenerateContent prompt]\<rparr> in
      case generate_content env prompt of
        Inl m \<Rightarrow> (Inl (Raised m), w1)
      | Inr response_text \<Rightarrow>
          (case loads env response_text of
             Inl e \<Rightarrow> (Inl e, w1)
           | Inr score_result \<Rightarrow>
               (case dict_get score_result ''weighted_score'' (JInt 0) of
                  Inl e \<Rightarrow> (Inl e, w1)
                | Inr weighted_score \<Rightarrow>
                    application_gate env job_id job_data score_result weighted_score w1)))"

text \<open>Lines 42 to 98: the body of the \<^verbatim>\<open>try\<close> statement.\<close>

definition try_body :: "env \<Rightarrow> request \<Rightarrow> world \<Rightarrow> (exn + response) \<times> world" where
  "try_body env req w =
     (case get_json req of
        Inl e \<Rightarrow> (Inl e, w)
      | Inr job_data \<Rightarrow>
          (case dict_get job_data ''job_id'' JNull of
             Inl e \<Rightarrow> (Inl e, w)
           | Inr job_id \<Rightarrow>
               (case dict_get job_data ''job_description'' JNull of
                  Inl e \<Rightarrow> (Inl e, w)
                | Inr job_description \<Rightarrow>
                    if \<not> truthy job_id \<or> \<not> truthy job_description
                    then (Inr (jsonify [(''status'', JStr ''error''),
                                        (''message'', JStr ''Missing job_id or job_description'')],
                               400), w)
                    else scoring env job_id job_data job_description w)))"

text \<open>The handler: the \<^verbatim>\<open>try\<close> statement with its \<^verbatim>\<open>except Exception as e\<close> clause.\<close>

definition analyze_job_posting :: "env \<Rightarrow> request \<Rightarrow> world \<Rightarrow> response \<times> world" where
  "analyze_job_posting env req w =
     (case try_body env req w of
        (Inr resp, w') \<Rightarrow> (resp, w')
      | (Inl e, w') \<Rightarrow>
          ((jsonify [(''status'', JStr ''error''), (''message'', JStr (str_exn e))], 500), w'))"

section \<open>Notions used to state the properties\<close>

text \<open>
  A request passes the input validation of lines 42 to 47: the body is parsed, both
  lookups return, and neither value is falsy.
\<close>

definition validated :: "request \<Rightarrow> json \<Rightarrow> json \<Rightarrow> json \<Rightarrow> bool" where
  "validated req job_data job_id job_description \<longleftrightarrow>
     get_json req = Inr job_data \<and>
     dict_get job_data ''job_id'' JNull = Inr job_id \<and>
     dict_get job_data ''job_description'' JNull = Inr job_description \<and>
     truthy job_id \<and> truthy job_description"

text \<open>
  The model call, the parse and the extraction of lines 58 to 70 all return: the request
  reaches the comparison of line 73 with these values.
\<close>

definition scored :: "env \<Rightarrow> json \<Rightarrow> string option \<Rightarrow> json \<Rightarrow> json \<Rightarrow> bool" where
  "scored env job_description response_text score_result weighted_score \<longleftrightarrow>
     generate_content env (build_prompt env job_description) = Inr response_text \<and>
     loads env response_text = Inr score_result \<and>
     dict_get score_result ''weighted_score'' (JInt 0) = Inr weighted_score"

text \<open>A field of the request body is missing, or its value is empty (falsy).\<close>

definition missing_or_empty :: "(string \<times> json) list \<Rightarrow> string \<Rightarrow> bool" where
  "missing_or_empty kvs k = (case map_of kvs k of None \<Rightarrow> True | Some v \<Rightarrow> \<not> truthy v)"

fun is_dict :: "json \<Rightarrow> bool" where
  "is_dict (JObj kvs) = True"
| "is_dict v = False"

text \<open>The body of the error responses.\<close>

definition error_body :: "string \<Rightarrow> json" where
  "error_body m = JObj [(''status'', JStr ''error''), (''message'', JStr m)]"

text \<open>
  A well-formed entry of the audit log: its status, exactly the fields of that status,
  in the order of the dict literal, and a time assigned by the server.
\<close>

definition entry_ok :: "document \<Rightarrow> bool" where
  "entry_ok doc \<longleftrightarrow>
     ((map_of doc ''status'' = Some (Plain (JStr ''REJECTED'')) \<and>
       map fst doc = [''status'', ''score'', ''reason'', ''timestamp'']) \<or>
      (map_of doc ''status'' = Some (Plain (JStr ''READY_FOR_SUBMISSION'')) \<and>
       map fst doc = [''status'', ''score'', ''gemini_details'', ''job_data'', ''timestamp''])) \<and>
     (case map_of doc ''timestamp'' of Some (Timestamp t) \<Rightarrow> True | _ \<Rightarrow> False)"

text \<open>Requests served one after the other, each with the services as they answer it.\<close>

fun serve :: "(env \<times> request) list \<Rightarrow> world \<Rightarrow> world" where
  "serve [] w = w"
| "serve ((env, req) # rs) w = serve rs (snd (analyze_job_posting env req w))"

text \<open>
  Stubs for the examples: a model that answers every prompt with a text that parses to
  \<open>score_result\<close>, and a store whose writes all go through (\<open>fault = None\<close>) or all
  raise with the message \<open>fault\<close>; a model whose every call raises; and a model whose
  answer does not parse.
\<close>

definition stub_env :: "json \<Rightarrow> string option \<Rightarrow> env" where
  "stub_env score_result fault =
     \<lparr>MASTER_PROFILE = ''profile'', py_format = (\<lambda>v. ''?''),
      generate_content = (\<lambda>p. Inr (Some ''reply'')),
      json_loads = (\<lambda>t. Inr score_result),
      set_raises = (\<lambda>k d. fault), bad_document_id = (\<lambda>v. ''bad id''), server_time = 7\<rparr>"

definition failing_model :: "string \<Rightarrow> env" where
  "failing_model m =
     \<lparr>MASTER_PROFILE = ''profile'', py_format = (\<lambda>v. ''?''),
      generate_content = (\<lambda>p. Inl m),
      json_loads = (\<lambda>t. Inr JNull),
      set_raises = (\<lambda>k d. None), bad_document_id = (\<lambda>v. ''bad id''), server_time = 7\<rparr>"

definition garbling_model :: "string \<Rightarrow> env" where
  "garbling_model m =
     \<lparr>MASTER_PROFILE = ''profile'', py_format = (\<lambda>v. ''?''),
      generate_content = (\<lambda>p. Inr (Some ''reply'')),
      json_loads = (\<lambda>t. Inl m),
      set_raises = (\<lambda>k d. None), bad_document_id = (\<lambda>v. ''bad id''), server_time = 7\<rparr>"

definition empty_world :: world where
  "empty_world = \<lparr>application_log = Map.empty, calls = []\<rparr>"

definition posting :: "string \<Rightarrow> string \<Rightarrow> json" where
  "posting job_id job_description =
     JObj [(''job_id'', JStr job_id), (''job_description'', JStr job_description)]"

section \<open>The steps of the handler\<close>

lemma py_ge_not_lt: "py_ge v n = Inr True \<Longrightarrow> py_lt v n = Inr False"
  by (induction v n rule: py_lt.induct) (auto split: if_splits)

lemma document_set_ok:
  "set_raises env k doc = None \<Longrightarrow>
   document_set env (JStr k) doc w =
     (Inr (), w\<lparr>calls := calls w @ [DocumentSet k doc],
                application_log := (application_log w)(k \<mapsto> stamp (server_time env) doc)\<rparr>)"
  by (simp add: Let_def)

lemma document_set_raises:
  "set_raises env k doc = Some m \<Longrightarrow>
   document_set env (JStr k) doc w = (Inl (Raised m), w\<lparr>calls := calls w @ [DocumentSet k doc]\<rparr>)"
  by (simp add: Let_def)

lemma try_body_gate:
  assumes "validated req job_data job_id job_description"
      and "scored env job_description response_text score_result weighted_score"
  shows "try_body env req w =
           application_gate env job_id job_data score_result weighted_score
             (w\<lparr>calls := calls w @ [GenerateContent (build_prompt env job_description)]\<rparr>)"
  using assms by (simp add: validated_def scored_def try_body_def scoring_def Let_def)

lemma gate_below:
  assumes "py_lt weighted_score 80 = Inr True"
  shows "application_gate env (JStr k) job_data score_result weighted_score w =
     (case set_raises env k (rejected_entry weighted_score) of
        Some m \<Rightarrow> (Inl (Raised m), w\<lparr>calls := calls w @ [DocumentSet k (rejected_entry weighted_score)]\<rparr>)
      | None \<Rightarrow> (Inr (JObj [(''status'', JStr ''rejected''), (''score'', weighted_score)], 200),
           w\<lparr>calls := calls w @ [DocumentSet k (rejected_entry weighted_score)],
             application_log := (application_log w)(k \<mapsto> stamp (server_time env) (rejected_entry weighted_score))\<rparr>))"
  using assms by (simp add: application_gate_def Let_def jsonify_def split: option.splits)

lemma gate_not_below:
  assumes "py_lt weighted_score 80 = Inr False"
  shows "application_gate env (JStr k) job_data score_result weighted_score w =
     (case set_raises env k (ready_entry weighted_score score_result job_data) of
        Some m \<Rightarrow> (Inl (Raised m), w\<lparr>calls := calls w @ [DocumentSet k (ready_entry weighted_score score_result job_data)]\<rparr>)
      | None \<Rightarrow> (Inr (JObj [(''status'', JStr ''success''), (''score'', weighted_score), (''details'', score_result)], 200),
           w\<lparr>calls := calls w @ [DocumentSet k (ready_entry weighted_score score_result job_data)],
             application_log := (application_log w)(k \<mapsto> stamp (server_time env) (ready_entry weighted_score score_result job_data))\<rparr>))"
  using assms by (simp add: application_gate_def Let_def jsonify_def split: option.splits)

lemma gate_raises:
  assumes "py_lt weighted_score 80 = Inl e"
  shows "application_gate env job_id job_data score_result weighted_score w = (Inl e, w)"
  using assms by (simp add: application_gate_def)

text \<open>
  Every run of the gate, of the scoring step, of the body and of the handler ends in one
  of three ways: the validation response (nothing done), an exception (the log as it
  was, and at most the model call and one refused write), or a response with status 200
  after exactly one model call and one write that went through.
\<close>

lemma document_set_not_str:
  "\<not> (\<exists>k. job_id = JStr k) \<Longrightarrow> \<exists>e. document_set env job_id doc w = (Inl e, w)"
  by (cases job_id) simp_all

lemma gate_outcome:
  assumes "application_gate env job_id job_data score_result weighted_score w = (r, w')"
  shows "(\<exists>e. r = Inl e \<and> application_log w' = application_log w \<and>
            (calls w' = calls w \<or>
             (\<exists>k doc. job_id = JStr k \<and> calls w' = calls w @ [DocumentSet k doc] \<and>
                set_raises env k doc = Some (str_exn e)))) \<or>
         (\<exists>k doc. job_id = JStr k \<and> set_raises env k doc = None \<and>
            calls w' = calls w @ [DocumentSet k doc] \<and>
            application_log w' = (application_log w)(k \<mapsto> stamp (server_time env) doc) \<and>
            (py_lt weighted_score 80 = Inr True \<and> doc = rejected_entry weighted_score \<and>
               r = Inr (JObj [(''status'', JStr ''rejected''), (''score'', weighted_score)], 200) \<or>
             py_lt weighted_score 80 = Inr False \<and>
               doc = ready_entry weighted_score score_result job_data \<and>
               r = Inr (JObj [(''status'', JStr ''success''), (''score'', weighted_score),
                              (''details'', score_result)], 200)))"
proof (cases "py_lt weighted_score 80")
  case (Inl e)
  with assms show ?thesis by (auto simp: gate_raises)
next
  case (Inr below)
  show ?thesis
  proof (cases "\<exists>k. job_id = JStr k")
    case False
    then obtain e1 e2 where
      "document_set env job_id (rejected_entry weighted_score) w = (Inl e1, w)"
      "document_set env job_id (ready_entry weighted_score score_result job_data) w = (Inl e2, w)"
      using document_set_not_str by blast
    with assms Inr show ?thesis
      by (cases below) (auto simp: application_gate_def)
  next
    case True
    then obtain k where k: "job_id = JStr k" ..
    show ?thesis
    proof (cases below)
      case True
      with assms Inr k show ?thesis
        by (auto simp: gate_below split: option.splits)
    next
      case False
      with assms Inr k show ?thesis
        by (auto simp: gate_not_below split: option.splits)
    qed
  qed
qed

lemma scoring_outcome:
  assumes "scoring env job_id job_data job_description w = (r, w')"
  shows "(\<exists>e. r = Inl e \<and> application_log w' = application_log w \<and>
            (calls w' = calls w @ [GenerateContent (build_prompt env job_description)] \<or>
             (\<exists>k doc. job_id = JStr k \<and>
                calls w' = calls w @ [GenerateContent (build_prompt env job_description),
                                      DocumentSet k doc] \<and>
                set_raises env k doc = Some (str_exn e)))) \<or>
         (\<exists>k doc response_text score_result weighted_score.
            job_id = JStr k \<and>
            scored env job_description response_text score_result weighted_score \<and>
            set_raises env k doc = None \<and>
            calls w' = calls w @ [GenerateContent (build_prompt env job_description),
                                  DocumentSet k doc] \<and>
            application_log w' = (application_log w)(k \<mapsto> stamp (server_time env) doc) \<and>
            (py_lt weighted_score 80 = Inr True \<and> doc = rejected_entry weighted_score \<and>
               r = Inr (JObj [(''status'', JStr ''rejected''), (''score'', weighted_score)], 200) \<or>
             py_lt weighted_score 80 = Inr False \<and>
               doc = ready_entry weighted_score score_result job_data \<and>
               r = Inr (JObj [(''status'', JStr ''success''), (''score'', weighted_score),
                              (''details'', score_result)], 200)))"
proof (cases "generate_content env (build_prompt env job_description)")
  case (Inl m)
  with assms show ?thesis by (auto simp: scoring_def Let_def)
next
  case g: (Inr response_text)
  show ?thesis
  proof (cases "loads env response_text")
    case (Inl e)
    with assms g show ?thesis by (auto simp: scoring_def Let_def)
  next
    case l: (Inr score_result)
    show ?thesis
    proof (cases "dict_get score_result ''weighted_score'' (JInt 0)")
      case (Inl e)
      with assms g l show ?thesis by (auto simp: scoring_def Let_def)
    next
      case d: (Inr weighted_score)
      let ?w1 = "w\<lparr>calls := calls w @ [GenerateContent (build_prompt env job_description)]\<rparr>"
      from assms g l d
      have "application_gate env job_id job_data score_result weighted_score ?w1 = (r, w')"
        by (simp add: scoring_def Let_def)
      from gate_outcome [OF this] g l d show ?thesis
        by (auto simp: scored_def)
    qed
  qed
qed


lemma try_body_outcome:
  assumes "try_body env req w = (r, w')"
  shows "(r = Inr (JObj [(''status'', JStr ''error''),
                         (''message'', JStr ''Missing job_id or job_description'')], 400) \<and>
          w' = w) \<or>
         (\<exists>e. r = Inl e \<and> application_log w' = application_log w \<and>
            (calls w' = calls w \<or>
             (\<exists>p. calls w' = calls w @ [GenerateContent p]) \<or>
             (\<exists>p k doc. calls w' = calls w @ [GenerateContent p, DocumentSet k doc] \<and>
                set_raises env k doc = Some (str_exn e)))) \<or>
         (\<exists>job_data k job_description response_text score_result weighted_score doc.
            validated req job_data (JStr k) job_description \<and>
            scored env job_description response_text score_result weighted_score \<and>
            set_raises env k doc = None \<and>
            calls w' = calls w @ [GenerateContent (build_prompt env job_description),
                                  DocumentSet k doc] \<and>
            application_log w' = (application_log w)(k \<mapsto> stamp (server_time env) doc) \<and>
            (py_lt weighted_score 80 = Inr True \<and> doc = rejected_entry weighted_score \<and>
               r = Inr (JObj [(''status'', JStr ''rejected''), (''score'', weighted_score)], 200) \<or>
             py_lt weighted_score 80 = Inr False \<and>
               doc = ready_entry weighted_score score_result job_data \<and>
               r = Inr (JObj [(''status'', JStr ''success''), (''score'', weighted_score),
                              (''details'', score_result)], 200)))"
proof (cases "get_json req")
  case (Inl e)
  with assms show ?thesis by (auto simp: try_body_def)
next
  case b: (Inr job_data)
  show ?thesis
  proof (cases "dict_get job_data ''job_id'' JNull")
    case (Inl e)
    with assms b show ?thesis by (auto simp: try_body_def)
  next
    case i: (Inr job_id)
    show ?thesis
    proof (cases "dict_get job_data ''job_description'' JNull")
      case (Inl e)
      with assms b i show ?thesis by (auto simp: try_body_def)
    next
      case d: (Inr job_description)
      show ?thesis
      proof (cases "truthy job_id \<and> truthy job_description")
        case False
        with assms b i d show ?thesis by (auto simp: try_body_def jsonify_def)
      next
        case True
        with assms b i d
        have "scoring env job_id job_data job_description w = (r, w')"
          by (simp add: try_body_def)
        from scoring_outcome [OF this] True b i d show ?thesis
          unfolding validated_def by blast
      qed
    qed
  qed
qed

lemma handler_outcome:
  assumes "analyze_job_posting env req w = (resp, w')"
  shows "(resp = (JObj [(''status'', JStr ''error''),
                        (''message'', JStr ''Missing job_id or job_description'')], 400) \<and>
          w' = w) \<or>
         (\<exists>m. resp = (error_body m, 500) \<and> application_log w' = application_log w \<and>
            (calls w' = calls w \<or>
             (\<exists>p. calls w' = calls w @ [GenerateContent p]) \<or>
             (\<exists>p k doc. calls w' = calls w @ [GenerateContent p, DocumentSet k doc] \<and>
                set_raises env k doc = Some m))) \<or>
         (\<exists>job_data k job_description response_text score_result weighted_score doc.
            validated req job_data (JStr k) job_description \<and>
            scored env job_description response_text score_result weighted_score \<and>
            set_raises env k doc = None \<and>
            calls w' = calls w @ [GenerateContent (build_prompt env job_description),
                                  DocumentSet k doc] \<and>
            application_log w' = (application_log w)(k \<mapsto> stamp (server_time env) doc) \<and>
            (py_lt weighted_score 80 = Inr True \<and> doc = rejected_entry weighted_score \<and>
               resp = (JObj [(''status'', JStr ''rejected''), (''score'', weighted_score)], 200) \<or>
             py_lt weighted_score 80 = Inr False \<and>
               doc = ready_entry weighted_score score_result job_data \<and>
               resp = (JObj [(''status'', JStr ''success''), (''score'', weighted_score),
                              (''details'', score_result)], 200)))"
proof -
  obtain r where t: "try_body env req w = (r, w')"
    using assms by (auto simp: analyze_job_posting_def split: prod.splits sum.splits)
  show ?thesis
  proof (cases r)
    case (Inl e)
    with assms t have "resp = (error_body (str_exn e), 500)"
      by (simp add: analyze_job_posting_def error_body_def jsonify_def)
    with try_body_outcome [OF t] Inl show ?thesis by auto
  next
    case (Inr x)
    with assms t have "resp = x"
      by (simp add: analyze_job_posting_def)
    with try_body_outcome [OF t] Inr show ?thesis by auto
  qed
qed

text \<open>The stubs, and the fields of the two documents.\<close>

lemma stub_env_sel:
  "MASTER_PROFILE (stub_env sr f) = ''profile''"
  "generate_content (stub_env sr f) = (\<lambda>p. Inr (Some ''reply''))"
  "json_loads (stub_env sr f) = (\<lambda>t. Inr sr)"
  "set_raises (stub_env sr f) = (\<lambda>k d. f)"
  "server_time (stub_env sr f) = 7"
  by (simp_all add: stub_env_def)

lemma posting_validated:
  "k \<noteq> [] \<Longrightarrow> d \<noteq> [] \<Longrightarrow>
   validated (JsonBody (posting k d)) (posting k d) (JStr k) (JStr d)"
  by (simp add: validated_def posting_def)

lemma stub_scored:
  "dict_get sr ''weighted_score'' (JInt 0) = Inr ws \<Longrightarrow>
   scored (stub_env sr f) jd (Some ''reply'') sr ws"
  by (simp add: scored_def stub_env_sel)

lemma rejected_entry_fields:
  "map_of (rejected_entry ws) ''status'' = Some (Plain (JStr ''REJECTED''))"
  "map_of (rejected_entry ws) ''score'' = Some (Plain ws)"
  "map_of (rejected_entry ws) ''reason'' = Some (Plain (JStr ''Score below 80% threshold''))"
  "map fst (rejected_entry ws) = [''status'', ''score'', ''reason'', ''timestamp'']"
  by (simp_all add: rejected_entry_def)

lemma ready_entry_fields:
  "map_of (ready_entry ws sr jd) ''status'' = Some (Plain (JStr ''READY_FOR_SUBMISSION''))"
  "map_of (ready_entry ws sr jd) ''score'' = Some (Plain ws)"
  "map_of (ready_entry ws sr jd) ''gemini_details'' = Some (Plain sr)"
  "map_of (ready_entry ws sr jd) ''job_data'' = Some (Plain jd)"
  "map fst (ready_entry ws sr jd) =
     [''status'', ''score'', ''gemini_details'', ''job_data'', ''timestamp'']"
  by (simp_all add: ready_entry_def)

text \<open>The two runs that end with status 200, from any world.\<close>

lemma handler_rejects:
  assumes "validated req job_data (JStr k) job_description"
      and "scored env job_description response_text score_result weighted_score"
      and lt: "py_lt weighted_score 80 = Inr True"
      and ok: "set_raises env k (rejected_entry weighted_score) = None"
  shows "analyze_job_posting env req w =
           ((JObj [(''status'', JStr ''rejected''), (''score'', weighted_score)], 200),
            w\<lparr>calls := calls w @ [GenerateContent (build_prompt env job_description),
                                  DocumentSet k (rejected_entry weighted_score)],
              application_log := (application_log w)
                (k \<mapsto> stamp (server_time env) (rejected_entry weighted_score))\<rparr>)"
  by (simp add: analyze_job_posting_def try_body_gate [OF assms(1,2)] gate_below [OF lt] ok)

lemma handler_accepts:
  assumes "validated req job_data (JStr k) job_description"
      and "scored env job_description response_text score_result weighted_score"
      and lt: "py_lt weighted_score 80 = Inr False"
      and ok: "set_raises env k (ready_entry weighted_score score_result job_data) = None"
  shows "analyze_job_posting env req w =
           ((JObj [(''status'', JStr ''success''), (''score'', weighted_score),
                   (''details'', score_result)], 200),
            w\<lparr>calls := calls w @ [GenerateContent (build_prompt env job_description),
                                  DocumentSet k (ready_entry weighted_score score_result job_data)],
              application_log := (application_log w)
                (k \<mapsto> stamp (server_time env) (ready_entry weighted_score score_result job_data))\<rparr>)"
  by (simp add: analyze_job_posting_def try_body_gate [OF assms(1,2)] gate_not_below [OF lt] ok)

lemma validated_unique:
  assumes "validated req job_data job_id job_description"
      and "validated req job_data' job_id' job_description'"
  shows "job_data' = job_data \<and> job_id' = job_id \<and> job_description' = job_description"
  using assms by (auto simp: validated_def)

text \<open>Well-formed entries are kept by the handler, and so by any sequence of requests.\<close>

lemma stamped_entry_ok:
  "entry_ok (stamp t (rejected_entry ws))"
  "entry_ok (stamp t (ready_entry ws sr jd))"
  by (simp_all add: entry_ok_def stamp_def rejected_entry_def ready_entry_def)

lemma handler_keeps_entries_ok:
  assumes inv: "\<forall>k d. application_log w k = Some d \<longrightarrow> entry_ok d"
      and r: "analyze_job_posting env req w = (resp, w')"
  shows "\<forall>k d. application_log w' k = Some d \<longrightarrow> entry_ok d"
  using handler_outcome [OF r] inv
  by (auto simp: stamped_entry_ok split: if_splits)

lemma serve_keeps_entries_ok:
  "\<forall>k d. application_log w k = Some d \<longrightarrow> entry_ok d \<Longrightarrow>
   \<forall>k d. application_log (serve rs w) k = Some d \<longrightarrow> entry_ok d"
proof (induction rs arbitrary: w)
  case Nil
  then show ?case by simp
next
  case (Cons a rs)
  obtain env req where a: "a = (env, req)" by (cases a)
  obtain resp w' where r: "analyze_job_posting env req w = (resp, w')"
    by (cases "analyze_job_posting env req w")
  from handler_keeps_entries_ok [OF Cons.prems r]
  have "\<forall>k d. application_log (serve rs w') k = Some d \<longrightarrow> entry_ok d"
    by (rule Cons.IH)
  with a r show ?case by simp
qed

lemma entry_ok_fields:
  assumes "entry_ok d"
  shows "(map_of d ''status'' = Some (Plain (JStr ''REJECTED'')) \<longrightarrow>
            map_of d ''gemini_details'' = None \<and> map_of d ''job_data'' = None)"
    and "(map_of d ''status'' = Some (Plain (JStr ''READY_FOR_SUBMISSION'')) \<longrightarrow>
            map_of d ''reason'' = None)"
  using assms
  by (auto simp: entry_ok_def map_of_eq_None_iff image_set [symmetric] simp del: image_set)

text \<open>The runs of the stubs.\<close>

lemma failing_model_sel:
  "generate_content (failing_model m) = (\<lambda>p. Inl m)"
  by (simp add: failing_model_def)

lemma garbling_model_sel:
  "generate_content (garbling_model m) = (\<lambda>p. Inr (Some ''reply''))"
  "json_loads (garbling_model m) = (\<lambda>t. Inl m)"
  by (simp_all add: garbling_model_def)

lemma rejected_run:
  "k \<noteq> [] \<Longrightarrow> d \<noteq> [] \<Longrightarrow> py_lt ws 80 = Inr True \<Longrightarrow>
   analyze_job_posting (stub_env (JObj [(''weighted_score'', ws)]) None) (JsonBody (posting k d)) w =
     ((JObj [(''status'', JStr ''rejected''), (''score'', ws)], 200),
      w\<lparr>calls := calls w @
           [GenerateContent (build_prompt (stub_env (JObj [(''weighted_score'', ws)]) None) (JStr d)),
            DocumentSet k (rejected_entry ws)],
        application_log := (application_log w)(k \<mapsto> stamp 7 (rejected_entry ws))\<rparr>)"
  using handler_rejects [OF posting_validated stub_scored, of k d "JObj [(''weighted_score'', ws)]" ws None w]
  by (simp add: stub_env_sel)

lemma accepted_run:
  "k \<noteq> [] \<Longrightarrow> d \<noteq> [] \<Longrightarrow> py_lt ws 80 = Inr False \<Longrightarrow>
   analyze_job_posting (stub_env (JObj [(''weighted_score'', ws)]) None) (JsonBody (posting k d)) w =
     ((JObj [(''status'', JStr ''success''), (''score'', ws),
             (''details'', JObj [(''weighted_score'', ws)])], 200),
      w\<lparr>calls := calls w @
           [GenerateContent (build_prompt (stub_env (JObj [(''weighted_score'', ws)]) None) (JStr d)),
            DocumentSet k (ready_entry ws (JObj [(''weighted_score'', ws)]) (posting k d))],
        application_log := (application_log w)
          (k \<mapsto> stamp 7 (ready_entry ws (JObj [(''weighted_score'', ws)]) (posting k d)))\<rparr>)"
  using handler_accepts [OF posting_validated stub_scored, of k d "JObj [(''weighted_score'', ws)]" ws None w]
  by (simp add: stub_env_sel)

lemma refused_run:
  "k \<noteq> [] \<Longrightarrow> d \<noteq> [] \<Longrightarrow> py_lt ws 80 = Inr False \<Longrightarrow>
   analyze_job_posting (stub_env (JObj [(''weighted_score'', ws)]) (Some m)) (JsonBody (posting k d)) w =
     ((error_body m, 500),
      w\<lparr>calls := calls w @
           [GenerateContent (build_prompt (stub_env (JObj [(''weighted_score'', ws)]) (Some m)) (JStr d)),
            DocumentSet k (ready_entry ws (JObj [(''weighted_score'', ws)]) (posting k d))]\<rparr>)"
  by (simp add: analyze_job_posting_def
      try_body_gate [OF posting_validated stub_scored, of k d "JObj [(''weighted_score'', ws)]" ws]
      gate_not_below stub_env_sel error_body_def jsonify_def)

section \<open>The threshold\<close>

text \<open>
  Claim C1. For a request that has passed validation with a string \<open>job_id\<close> and whose
  model response has been parsed, the handler issues one write after the model call; the
  document has status \<open>REJECTED\<close> and the reason \<open>Score below 80% threshold\<close> when
  \<open>weighted_score < 80\<close>, and status \<open>READY_FOR_SUBMISSION\<close> when \<open>weighted_score >= 80\<close>,
  and it is the document stored under \<open>job_id\<close> when the write goes through. The
  threshold is inclusive: 80 (as an integer or as a float) satisfies \<open>>= 80\<close>, and the
  double nearest to 79.999 satisfies \<open>< 80\<close>.
\<close>

theorem gate_threshold:
  assumes "validated req job_data (JStr k) job_description"
      and "scored env job_description response_text score_result weighted_score"
  shows "(py_lt weighted_score 80 = Inr True \<longrightarrow>
            (\<exists>doc. calls (snd (analyze_job_posting env req w)) =
                      calls w @ [GenerateContent (build_prompt env job_description), DocumentSet k doc] \<and>
                    map_of doc ''status'' = Some (Plain (JStr ''REJECTED'')) \<and>
                    map_of doc ''reason'' = Some (Plain (JStr ''Score below 80% threshold'')) \<and>
                    (set_raises env k doc = None \<longrightarrow>
                       application_log (snd (analyze_job_posting env req w)) k =
                         Some (stamp (server_time env) doc)))) \<and>
         (py_ge weighted_score 80 = Inr True \<longrightarrow>
            (\<exists>doc. calls (snd (analyze_job_posting env req w)) =
                      calls w @ [GenerateContent (build_prompt env job_description), DocumentSet k doc] \<and>
                    map_of doc ''status'' = Some (Plain (JStr ''READY_FOR_SUBMISSION'')) \<and>
                    (set_raises env k doc = None \<longrightarrow>
                       application_log (snd (analyze_job_posting env req w)) k =
                         Some (stamp (server_time env) doc)))) \<and>
         py_ge (JInt 80) 80 = Inr True \<and>
         py_ge (JFloat (Finite 80)) 80 = Inr True \<and>
         py_lt (JFloat (Finite (2814714582734471 / 35184372088832))) 80 = Inr True"
proof (intro conjI impI)
  assume lt: "py_lt weighted_score 80 = Inr True"
  show "\<exists>doc. calls (snd (analyze_job_posting env req w)) =
                      calls w @ [GenerateContent (build_prompt env job_description), DocumentSet k doc] \<and>
                    map_of doc ''status'' = Some (Plain (JStr ''REJECTED'')) \<and>
                    map_of doc ''reason'' = Some (Plain (JStr ''Score below 80% threshold'')) \<and>
                    (set_raises env k doc = None \<longrightarrow>
                       application_log (snd (analyze_job_posting env req w)) k =
                         Some (stamp (server_time env) doc))"
    by (rule exI [of _ "rejected_entry weighted_score"])
       (simp add: analyze_job_posting_def try_body_gate [OF assms] gate_below [OF lt]
          rejected_entry_def split: option.splits)
next
  assume "py_ge weighted_score 80 = Inr True"
  then have nlt: "py_lt weighted_score 80 = Inr False"
    by (rule py_ge_not_lt)
  show "\<exists>doc. calls (snd (analyze_job_posting env req w)) =
                      calls w @ [GenerateContent (build_prompt env job_description), DocumentSet k doc] \<and>
                    map_of doc ''status'' = Some (Plain (JStr ''READY_FOR_SUBMISSION'')) \<and>
                    (set_raises env k doc = None \<longrightarrow>
                       application_log (snd (analyze_job_posting env req w)) k =
                         Some (stamp (server_time env) doc))"
    by (rule exI [of _ "ready_entry weighted_score score_result job_data"])
       (simp add: analyze_job_posting_def try_body_gate [OF assms] gate_not_below [OF nlt]
          ready_entry_def split: option.splits)
qed simp_all

theorem gate_threshold_witness:
  "validated (JsonBody (posting ''j1'' ''Cloud role'')) (posting ''j1'' ''Cloud role'')
     (JStr ''j1'') (JStr ''Cloud role'') \<and>
   scored (stub_env (JObj [(''weighted_score'', JInt 80)]) None) (JStr ''Cloud role'')
     (Some ''reply'') (JObj [(''weighted_score'', JInt 80)]) (JInt 80) \<and>
   py_ge (JInt 80) 80 = Inr True \<and>
   (\<exists>doc. calls (snd (analyze_job_posting (stub_env (JObj [(''weighted_score'', JInt 80)]) None)
                        (JsonBody (posting ''j1'' ''Cloud role'')) empty_world)) =
             calls empty_world @
               [GenerateContent (build_prompt (stub_env (JObj [(''weighted_score'', JInt 80)]) None)
                  (JStr ''Cloud role'')),
                DocumentSet ''j1'' doc] \<and>
           map_of doc ''status'' = Some (Plain (JStr ''READY_FOR_SUBMISSION'')) \<and>
           application_log (snd (analyze_job_posting (stub_env (JObj [(''weighted_score'', JInt 80)]) None)
                        (JsonBody (posting ''j1'' ''Cloud role'')) empty_world)) ''j1'' =
             Some (stamp 7 doc)) \<and>
   scored (stub_env (JObj [(''weighted_score'',
       JFloat (Finite (2814714582734471 / 35184372088832)))]) None) (JStr ''Cloud role'')
     (Some ''reply'')
     (JObj [(''weighted_score'', JFloat (Finite (2814714582734471 / 35184372088832)))])
     (JFloat (Finite (2814714582734471 / 35184372088832))) \<and>
   py_lt (JFloat (Finite (2814714582734471 / 35184372088832))) 80 = Inr True \<and>
   (\<exists>doc. calls (snd (analyze_job_posting (stub_env (JObj [(''weighted_score'',
                          JFloat (Finite (2814714582734471 / 35184372088832)))]) None)
                        (JsonBody (posting ''j1'' ''Cloud role'')) empty_world)) =
             calls empty_world @
               [GenerateContent (build_prompt (stub_env (JObj [(''weighted_score'',
                          JFloat (Finite (2814714582734471 / 35184372088832)))]) None)
                  (JStr ''Cloud role'')),
                DocumentSet ''j1'' doc] \<and>
           map_of doc ''status'' = Some (Plain (JStr ''REJECTED'')) \<and>
           map_of doc ''reason'' = Some (Plain (JStr ''Score below 80% threshold'')))"
proof -
  let ?x = "JFloat (Finite (2814714582734471 / 35184372088832))"
  let ?at = "stub_env (JObj [(''weighted_score'', JInt 80)]) None"
  let ?below = "stub_env (JObj [(''weighted_score'', ?x)]) None"
  let ?req = "JsonBody (posting ''j1'' ''Cloud role'')"
  have v: "validated ?req (posting ''j1'' ''Cloud role'') (JStr ''j1'') (JStr ''Cloud role'')"
    by (simp add: posting_validated)
  have s1: "scored ?at (JStr ''Cloud role'') (Some ''reply'')
     (JObj [(''weighted_score'', JInt 80)]) (JInt 80)"
    by (simp add: stub_scored)
  have s2: "scored ?below (JStr ''Cloud role'') (Some ''reply'')
     (JObj [(''weighted_score'', ?x)]) ?x"
    by (simp add: stub_scored)
  have g: "py_ge (JInt 80) 80 = Inr True" by simp
  have l: "py_lt ?x 80 = Inr True" by simp
  have ok: "set_raises ?at = (\<lambda>k d. None)" "server_time ?at = 7"
    by (simp_all add: stub_env_sel)
  from gate_threshold [OF v s1, of empty_world] g ok
  have 1: "\<exists>doc. calls (snd (analyze_job_posting ?at ?req empty_world)) =
             calls empty_world @
               [GenerateContent (build_prompt ?at (JStr ''Cloud role'')), DocumentSet ''j1'' doc] \<and>
           map_of doc ''status'' = Some (Plain (JStr ''READY_FOR_SUBMISSION'')) \<and>
           application_log (snd (analyze_job_posting ?at ?req empty_world)) ''j1'' =
             Some (stamp 7 doc)"
    by simp
  from gate_threshold [OF v s2, of empty_world] l
  have 2: "\<exists>doc. calls (snd (analyze_job_posting ?below ?req empty_world)) =
             calls empty_world @
               [GenerateContent (build_prompt ?below (JStr ''Cloud role'')), DocumentSet ''j1'' doc] \<and>
           map_of doc ''status'' = Some (Plain (JStr ''REJECTED'')) \<and>
           map_of doc ''reason'' = Some (Plain (JStr ''Score below 80% threshold''))"
    by blast
  from v s1 s2 g l 1 2 show ?thesis
    by blast
qed

section \<open>One entry for each request that completes\<close>

text \<open>
  Claim C2, as amended. For every request that passes input validation with a string
  \<open>job_id\<close>, reaches the comparison of line 73 with a \<open>weighted_score\<close> that compares
  with 80, and whose write does not raise, the handler leaves the world with exactly one
  model call and one write more than before, the write under \<open>job_id\<close>, with a status
  that is a function of the outcome of the comparison alone. Whenever the handler
  answers 500, the log is as it was; and a request whose input validation fails leaves
  the world untouched.
\<close>

theorem one_entry_when_write_succeeds:
  "(validated req job_data (JStr k) job_description \<and>
    scored env job_description response_text score_result weighted_score \<and>
    py_lt weighted_score 80 = Inr below \<and>
    set_raises env k (if below then rejected_entry weighted_score
                      else ready_entry weighted_score score_result job_data) = None \<longrightarrow>
      (\<exists>doc. snd (analyze_job_posting env req w) =
                w\<lparr>calls := calls w @ [GenerateContent (build_prompt env job_description),
                                      DocumentSet k doc],
                  application_log := (application_log w)(k \<mapsto> stamp (server_time env) doc)\<rparr> \<and>
              map_of doc ''status'' =
                Some (Plain (JStr (if below then ''REJECTED'' else ''READY_FOR_SUBMISSION''))))) \<and>
   (snd (fst (analyze_job_posting env req w)) = 500 \<longrightarrow>
      application_log (snd (analyze_job_posting env req w)) = application_log w) \<and>
   (get_json req = Inr job_data \<and>
    dict_get job_data ''job_id'' JNull = Inr job_id \<and>
    dict_get job_data ''job_description'' JNull = Inr job_description' \<and>
    (\<not> truthy job_id \<or> \<not> truthy job_description') \<longrightarrow>
      snd (analyze_job_posting env req w) = w)"
proof (intro conjI impI)
  assume a: "validated req job_data (JStr k) job_description \<and>
    scored env job_description response_text score_result weighted_score \<and>
    py_lt weighted_score 80 = Inr below \<and>
    set_raises env k (if below then rejected_entry weighted_score
                      else ready_entry weighted_score score_result job_data) = None"
  then have v: "validated req job_data (JStr k) job_description"
    and s: "scored env job_description response_text score_result weighted_score"
    by simp_all
  show "\<exists>doc. snd (analyze_job_posting env req w) =
                w\<lparr>calls := calls w @ [GenerateContent (build_prompt env job_description),
                                      DocumentSet k doc],
                  application_log := (application_log w)(k \<mapsto> stamp (server_time env) doc)\<rparr> \<and>
              map_of doc ''status'' =
                Some (Plain (JStr (if below then ''REJECTED'' else ''READY_FOR_SUBMISSION'')))"
  proof (cases below)
    case True
    with a have lt: "py_lt weighted_score 80 = Inr True"
      and ok: "set_raises env k (rejected_entry weighted_score) = None" by simp_all
    show ?thesis
      by (rule exI [of _ "rejected_entry weighted_score"])
         (simp add: analyze_job_posting_def try_body_gate [OF v s] gate_below [OF lt] ok True
            rejected_entry_fields)
  next
    case False
    with a have lt: "py_lt weighted_score 80 = Inr False"
      and ok: "set_raises env k (ready_entry weighted_score score_result job_data) = None"
      by simp_all
    show ?thesis
      by (rule exI [of _ "ready_entry weighted_score score_result job_data"])
         (simp add: analyze_job_posting_def try_body_gate [OF v s] gate_not_below [OF lt] ok False
            ready_entry_fields)
  qed
next
  assume f: "snd (fst (analyze_job_posting env req w)) = 500"
  obtain resp w' where r: "analyze_job_posting env req w = (resp, w')"
    by (cases "analyze_job_posting env req w")
  with f handler_outcome [OF r] show "application_log (snd (analyze_job_posting env req w)) = application_log w"
    by auto
next
  assume "get_json req = Inr job_data \<and>
    dict_get job_data ''job_id'' JNull = Inr job_id \<and>
    dict_get job_data ''job_description'' JNull = Inr job_description' \<and>
    (\<not> truthy job_id \<or> \<not> truthy job_description')"
  then show "snd (analyze_job_posting env req w) = w"
    by (auto simp: analyze_job_posting_def try_body_def)
qed

theorem one_entry_when_write_succeeds_witness:
  "validated (JsonBody (posting ''j2'' ''Unrelated retail job'')) (posting ''j2'' ''Unrelated retail job'')
     (JStr ''j2'') (JStr ''Unrelated retail job'') \<and>
   scored (stub_env (JObj [(''weighted_score'', JInt 35)]) None) (JStr ''Unrelated retail job'')
     (Some ''reply'') (JObj [(''weighted_score'', JInt 35)]) (JInt 35) \<and>
   py_lt (JInt 35) 80 = Inr True \<and>
   set_raises (stub_env (JObj [(''weighted_score'', JInt 35)]) None) ''j2''
     (rejected_entry (JInt 35)) = None \<and>
   (\<exists>doc. snd (analyze_job_posting (stub_env (JObj [(''weighted_score'', JInt 35)]) None)
                  (JsonBody (posting ''j2'' ''Unrelated retail job'')) empty_world) =
            empty_world\<lparr>calls := calls empty_world @
                 [GenerateContent (build_prompt (stub_env (JObj [(''weighted_score'', JInt 35)]) None)
                    (JStr ''Unrelated retail job'')),
                  DocumentSet ''j2'' doc],
               application_log := (application_log empty_world)(''j2'' \<mapsto> stamp 7 doc)\<rparr> \<and>
           map_of doc ''status'' = Some (Plain (JStr ''REJECTED''))) \<and>
   get_json (JsonBody (JObj [(''job_id'', JStr ''j3'')])) = Inr (JObj [(''job_id'', JStr ''j3'')]) \<and>
   \<not> truthy JNull \<and>
   snd (analyze_job_posting (stub_env (JObj [(''weighted_score'', JInt 35)]) None)
          (JsonBody (JObj [(''job_id'', JStr ''j3'')])) empty_world) = empty_world \<and>
   snd (fst (analyze_job_posting (stub_env (JObj [(''weighted_score'', JInt 92)]) (Some ''503 unavailable''))
          (JsonBody (posting ''j2'' ''Unrelated retail job'')) empty_world)) = 500 \<and>
   application_log
     (snd (analyze_job_posting (stub_env (JObj [(''weighted_score'', JInt 92)]) (Some ''503 unavailable''))
          (JsonBody (posting ''j2'' ''Unrelated retail job'')) empty_world)) =
     application_log empty_world"
proof -
  let ?env = "stub_env (JObj [(''weighted_score'', JInt 35)]) None"
  have v: "validated (JsonBody (posting ''j2'' ''Unrelated retail job''))
     (posting ''j2'' ''Unrelated retail job'') (JStr ''j2'') (JStr ''Unrelated retail job'')"
    by (simp add: posting_validated)
  have s: "scored ?env (JStr ''Unrelated retail job'')
     (Some ''reply'') (JObj [(''weighted_score'', JInt 35)]) (JInt 35)"
    by (simp add: stub_scored)
  have l: "py_lt (JInt 35) 80 = Inr True" by simp
  have ok: "set_raises ?env ''j2'' (rejected_entry (JInt 35)) = None"
    by (simp add: stub_env_sel)
  have g: "get_json (JsonBody (JObj [(''job_id'', JStr ''j3'')])) = Inr (JObj [(''job_id'', JStr ''j3'')])"
    "dict_get (JObj [(''job_id'', JStr ''j3'')]) ''job_id'' JNull = Inr (JStr ''j3'')"
    "dict_get (JObj [(''job_id'', JStr ''j3'')]) ''job_description'' JNull = Inr JNull"
    "\<not> truthy JNull"
    by simp_all
  note t = one_entry_when_write_succeeds
  from t [where req = "JsonBody (posting ''j2'' ''Unrelated retail job'')"
        and job_data = "posting ''j2'' ''Unrelated retail job''" and k = "''j2''"
        and job_description = "JStr ''Unrelated retail job''" and env = ?env
        and response_text = "Some ''reply''" and score_result = "JObj [(''weighted_score'', JInt 35)]"
        and weighted_score = "JInt 35" and below = True and w = empty_world]
     v s l ok
  have 1: "\<exists>doc. snd (analyze_job_posting ?env
                  (JsonBody (posting ''j2'' ''Unrelated retail job'')) empty_world) =
            empty_world\<lparr>calls := calls empty_world @
                 [GenerateContent (build_prompt ?env (JStr ''Unrelated retail job'')),
                  DocumentSet ''j2'' doc],
               application_log := (application_log empty_world)(''j2'' \<mapsto> stamp 7 doc)\<rparr> \<and>
           map_of doc ''status'' = Some (Plain (JStr ''REJECTED''))"
    by (simp add: stub_env_sel)
  from t [where req = "JsonBody (JObj [(''job_id'', JStr ''j3'')])" and env = ?env
        and w = empty_world and job_data = "JObj [(''job_id'', JStr ''j3'')]"
        and job_id = "JStr ''j3''" and job_description' = JNull] g
  have 2: "snd (analyze_job_posting ?env (JsonBody (JObj [(''job_id'', JStr ''j3'')])) empty_world) =
      empty_world"
    by simp
  have f: "snd (fst (analyze_job_posting (stub_env (JObj [(''weighted_score'', JInt 92)]) (Some ''503 unavailable''))
          (JsonBody (posting ''j2'' ''Unrelated retail job'')) empty_world)) = 500"
    by (simp add: refused_run)
  from t [where req = "JsonBody (posting ''j2'' ''Unrelated retail job'')"
        and env = "stub_env (JObj [(''weighted_score'', JInt 92)]) (Some ''503 unavailable'')"
        and w = empty_world] f
  have 3: "application_log
     (snd (analyze_job_posting (stub_env (JObj [(''weighted_score'', JInt 92)]) (Some ''503 unavailable''))
          (JsonBody (posting ''j2'' ''Unrelated retail job'')) empty_world)) =
     application_log empty_world"
    by blast
  from v s l ok g 1 2 f 3 show ?thesis by simp
qed

text \<open>
  As stated, with no condition on what happens at and after the gate, the claim fails:
  a validated request whose model response parses to \<open>{"weighted_score": 92}\<close> reaches
  the gate, and when the write raises the handler answers 500 with an empty log; and when
  the response parses to \<open>{"weighted_score": "92"}\<close> the comparison itself raises, before
  any write is issued.
\<close>

theorem one_entry_counterexample:
  "validated (JsonBody (posting ''j1'' ''Cloud role'')) (posting ''j1'' ''Cloud role'')
     (JStr ''j1'') (JStr ''Cloud role'') \<and>
   scored (stub_env (JObj [(''weighted_score'', JInt 92)]) (Some ''503 unavailable''))
     (JStr ''Cloud role'') (Some ''reply'') (JObj [(''weighted_score'', JInt 92)]) (JInt 92) \<and>
   fst (analyze_job_posting (stub_env (JObj [(''weighted_score'', JInt 92)]) (Some ''503 unavailable''))
          (JsonBody (posting ''j1'' ''Cloud role'')) empty_world) =
     (error_body ''503 unavailable'', 500) \<and>
   dom (application_log
     (snd (analyze_job_posting (stub_env (JObj [(''weighted_score'', JInt 92)]) (Some ''503 unavailable''))
          (JsonBody (posting ''j1'' ''Cloud role'')) empty_world))) = {} \<and>
   scored (stub_env (JObj [(''weighted_score'', JStr ''92'')]) None)
     (JStr ''Cloud role'') (Some ''reply'') (JObj [(''weighted_score'', JStr ''92'')]) (JStr ''92'') \<and>
   snd (analyze_job_posting (stub_env (JObj [(''weighted_score'', JStr ''92'')]) None)
          (JsonBody (posting ''j1'' ''Cloud role'')) empty_world) =
     empty_world\<lparr>calls := [GenerateContent
        (build_prompt (stub_env (JObj [(''weighted_score'', JStr ''92'')]) None) (JStr ''Cloud role''))]\<rparr>"
proof -
  have v: "validated (JsonBody (posting ''j1'' ''Cloud role'')) (posting ''j1'' ''Cloud role'')
     (JStr ''j1'') (JStr ''Cloud role'')"
    by (simp add: posting_validated)
  have s1: "scored (stub_env (JObj [(''weighted_score'', JInt 92)]) (Some ''503 unavailable''))
     (JStr ''Cloud role'') (Some ''reply'') (JObj [(''weighted_score'', JInt 92)]) (JInt 92)"
    by (simp add: stub_scored)
  have s2: "scored (stub_env (JObj [(''weighted_score'', JStr ''92'')]) None)
     (JStr ''Cloud role'') (Some ''reply'') (JObj [(''weighted_score'', JStr ''92'')]) (JStr ''92'')"
    by (simp add: stub_scored)
  have l1: "py_lt (JInt 92) 80 = Inr False" by simp
  have l2: "py_lt (JStr ''92'') 80 =
      Inl (TypeError (sq ''<'' @ '' not supported between instances of '' @
       sq (type_name (JStr ''92'')) @ '' and '' @ sq ''int''))" by simp
  show ?thesis
    using v s1 s2
    by (simp add: analyze_job_posting_def try_body_gate [OF v s1] try_body_gate [OF v s2]
        gate_not_below [OF l1] gate_raises [OF l2] stub_env_sel empty_world_def
        error_body_def jsonify_def)
qed

section \<open>Input validation\<close>

text \<open>
  Claim C3. For every request whose body is a JSON object in which \<open>job_id\<close> or
  \<open>job_description\<close> is missing or empty, the handler returns status 400 with the body
  \<open>{"status": "error", "message": "Missing job_id or job_description"}\<close> and leaves the
  world as it was: no write to the log and no call to the scoring model.
\<close>

theorem missing_field_is_client_error:
  assumes "get_json req = Inr (JObj kvs)"
      and "missing_or_empty kvs ''job_id'' \<or> missing_or_empty kvs ''job_description''"
  shows "analyze_job_posting env req w =
           ((JObj [(''status'', JStr ''error''),
                   (''message'', JStr ''Missing job_id or job_description'')], 400), w)"
  using assms
  by (auto simp: analyze_job_posting_def try_body_def missing_or_empty_def jsonify_def
      split: option.splits)

theorem missing_field_is_client_error_witness:
  "get_json (JsonBody (JObj [(''job_id'', JStr ''j3'')])) = Inr (JObj [(''job_id'', JStr ''j3'')]) \<and>
   missing_or_empty [(''job_id'', JStr ''j3'')] ''job_description'' \<and>
   analyze_job_posting (stub_env (JObj [(''weighted_score'', JInt 92)]) None)
     (JsonBody (JObj [(''job_id'', JStr ''j3'')])) empty_world =
     ((JObj [(''status'', JStr ''error''),
             (''message'', JStr ''Missing job_id or job_description'')], 400), empty_world) \<and>
   get_json (JsonBody (posting [] ''Cloud role'')) = Inr (JObj [(''job_id'', JStr []), (''job_description'', JStr ''Cloud role'')]) \<and>
   missing_or_empty [(''job_id'', JStr []), (''job_description'', JStr ''Cloud role'')] ''job_id'' \<and>
   analyze_job_posting (stub_env (JObj [(''weighted_score'', JInt 92)]) None)
     (JsonBody (posting [] ''Cloud role'')) empty_world =
     ((JObj [(''status'', JStr ''error''),
             (''message'', JStr ''Missing job_id or job_description'')], 400), empty_world)"
proof -
  have a: "get_json (JsonBody (JObj [(''job_id'', JStr ''j3'')])) = Inr (JObj [(''job_id'', JStr ''j3'')])"
    by simp
  have b: "missing_or_empty [(''job_id'', JStr ''j3'')] ''job_description''"
    by (simp add: missing_or_empty_def)
  have c: "get_json (JsonBody (posting [] ''Cloud role'')) =
      Inr (JObj [(''job_id'', JStr []), (''job_description'', JStr ''Cloud role'')])"
    by (simp add: posting_def)
  have d: "missing_or_empty [(''job_id'', JStr []), (''job_description'', JStr ''Cloud role'')] ''job_id''"
    by (simp add: missing_or_empty_def)
  from missing_field_is_client_error [OF a disjI2 [OF b]]
       missing_field_is_client_error [OF c disjI1 [OF d]] a b c d
  show ?thesis by simp
qed

section \<open>The default of the score\<close>

text \<open>
  Claim C4. For every validated request (with a string \<open>job_id\<close>) whose model response
  parses to an object without the field \<open>weighted_score\<close>, the lookup returns 0 and
  raises nothing, the handler issues the write of a \<open>REJECTED\<close> document with score 0,
  and it answers 200 with \<open>{"status": "rejected", "score": 0}\<close> once that write has gone
  through. The only error that can still surface is the store's own, when the write
  raises.
\<close>

theorem absent_score_defaults_to_zero:
  assumes v: "validated req job_data (JStr k) job_description"
      and g: "generate_content env (build_prompt env job_description) = Inr response_text"
      and l: "loads env response_text = Inr (JObj members)"
      and a: "map_of members ''weighted_score'' = None"
  shows "dict_get (JObj members) ''weighted_score'' (JInt 0) = Inr (JInt 0) \<and>
         calls (snd (analyze_job_posting env req w)) =
           calls w @ [GenerateContent (build_prompt env job_description),
                      DocumentSet k (rejected_entry (JInt 0))] \<and>
         map_of (rejected_entry (JInt 0)) ''status'' = Some (Plain (JStr ''REJECTED'')) \<and>
         map_of (rejected_entry (JInt 0)) ''score'' = Some (Plain (JInt 0)) \<and>
         (set_raises env k (rejected_entry (JInt 0)) = None \<longrightarrow>
            analyze_job_posting env req w =
              ((JObj [(''status'', JStr ''rejected''), (''score'', JInt 0)], 200),
               w\<lparr>calls := calls w @ [GenerateContent (build_prompt env job_description),
                                     DocumentSet k (rejected_entry (JInt 0))],
                 application_log := (application_log w)
                    (k \<mapsto> stamp (server_time env) (rejected_entry (JInt 0)))\<rparr>)) \<and>
         (\<forall>m. set_raises env k (rejected_entry (JInt 0)) = Some m \<longrightarrow>
            fst (analyze_job_posting env req w) = (error_body m, 500))"
proof -
  have d: "dict_get (JObj members) ''weighted_score'' (JInt 0) = Inr (JInt 0)"
    using a by simp
  with g l have s: "scored env job_description response_text (JObj members) (JInt 0)"
    by (simp add: scored_def)
  have lt: "py_lt (JInt 0) 80 = Inr True" by simp
  note run = try_body_gate [OF v s] gate_below [OF lt]
  have c: "calls (snd (analyze_job_posting env req w)) =
           calls w @ [GenerateContent (build_prompt env job_description),
                      DocumentSet k (rejected_entry (JInt 0))]"
    by (simp add: analyze_job_posting_def run split: option.splits)
  have ok: "set_raises env k (rejected_entry (JInt 0)) = None \<longrightarrow>
            analyze_job_posting env req w =
              ((JObj [(''status'', JStr ''rejected''), (''score'', JInt 0)], 200),
               w\<lparr>calls := calls w @ [GenerateContent (build_prompt env job_description),
                                     DocumentSet k (rejected_entry (JInt 0))],
                 application_log := (application_log w)
                    (k \<mapsto> stamp (server_time env) (rejected_entry (JInt 0)))\<rparr>)"
    by (simp add: analyze_job_posting_def run)
  have ko: "\<forall>m. set_raises env k (rejected_entry (JInt 0)) = Some m \<longrightarrow>
            fst (analyze_job_posting env req w) = (error_body m, 500)"
    by (simp add: analyze_job_posting_def run error_body_def jsonify_def)
  from d c ok ko show ?thesis
    by (simp add: rejected_entry_fields)
qed

theorem absent_score_defaults_to_zero_witness:
  "validated (JsonBody (posting ''j4'' ''Cloud role'')) (posting ''j4'' ''Cloud role'')
     (JStr ''j4'') (JStr ''Cloud role'') \<and>
   generate_content (stub_env (JObj [(''missing_keywords'', JArr [])]) None)
     (build_prompt (stub_env (JObj [(''missing_keywords'', JArr [])]) None) (JStr ''Cloud role'')) =
     Inr (Some ''reply'') \<and>
   loads (stub_env (JObj [(''missing_keywords'', JArr [])]) None) (Some ''reply'') =
     Inr (JObj [(''missing_keywords'', JArr [])]) \<and>
   map_of [(''missing_keywords'', JArr [])] ''weighted_score'' = None \<and>
   set_raises (stub_env (JObj [(''missing_keywords'', JArr [])]) None) ''j4''
     (rejected_entry (JInt 0)) = None \<and>
   fst (analyze_job_posting (stub_env (JObj [(''missing_keywords'', JArr [])]) None)
     (JsonBody (posting ''j4'' ''Cloud role'')) empty_world) =
     (JObj [(''status'', JStr ''rejected''), (''score'', JInt 0)], 200) \<and>
   application_log (snd (analyze_job_posting (stub_env (JObj [(''missing_keywords'', JArr [])]) None)
     (JsonBody (posting ''j4'' ''Cloud role'')) empty_world)) ''j4'' =
     Some [(''status'', Plain (JStr ''REJECTED'')), (''score'', Plain (JInt 0)),
           (''reason'', Plain (JStr ''Score below 80% threshold'')), (''timestamp'', Timestamp 7)] \<and>
   set_raises (stub_env (JObj [(''missing_keywords'', JArr [])]) (Some ''503 unavailable'')) ''j4''
     (rejected_entry (JInt 0)) = Some ''503 unavailable'' \<and>
   fst (analyze_job_posting (stub_env (JObj [(''missing_keywords'', JArr [])]) (Some ''503 unavailable''))
     (JsonBody (posting ''j4'' ''Cloud role'')) empty_world) =
     (error_body ''503 unavailable'', 500)"
proof -
  let ?env = "stub_env (JObj [(''missing_keywords'', JArr [])]) None"
  have v: "validated (JsonBody (posting ''j4'' ''Cloud role'')) (posting ''j4'' ''Cloud role'')
     (JStr ''j4'') (JStr ''Cloud role'')"
    by (simp add: posting_validated)
  have g: "generate_content ?env (build_prompt ?env (JStr ''Cloud role'')) = Inr (Some ''reply'')"
    by (simp add: stub_env_sel)
  have l: "loads ?env (Some ''reply'') = Inr (JObj [(''missing_keywords'', JArr [])])"
    by (simp add: stub_env_sel)
  have a: "map_of [(''missing_keywords'', JArr [])] ''weighted_score'' = None"
    by simp
  have ok: "set_raises ?env ''j4'' (rejected_entry (JInt 0)) = None"
    by (simp add: stub_env_sel)
  from absent_score_defaults_to_zero [OF v g l a, of empty_world] ok
  have "analyze_job_posting ?env (JsonBody (posting ''j4'' ''Cloud role'')) empty_world =
      ((JObj [(''status'', JStr ''rejected''), (''score'', JInt 0)], 200),
       empty_world\<lparr>calls := calls empty_world @
            [GenerateContent (build_prompt ?env (JStr ''Cloud role'')),
             DocumentSet ''j4'' (rejected_entry (JInt 0))],
          application_log := (application_log empty_world)
            (''j4'' \<mapsto> stamp (server_time ?env) (rejected_entry (JInt 0)))\<rparr>)"
    by blast
  then have 1: "fst (analyze_job_posting ?env (JsonBody (posting ''j4'' ''Cloud role'')) empty_world) =
      (JObj [(''status'', JStr ''rejected''), (''score'', JInt 0)], 200)"
    and 2: "application_log (snd (analyze_job_posting ?env
      (JsonBody (posting ''j4'' ''Cloud role'')) empty_world)) ''j4'' =
      Some [(''status'', Plain (JStr ''REJECTED'')), (''score'', Plain (JInt 0)),
           (''reason'', Plain (JStr ''Score below 80% threshold'')), (''timestamp'', Timestamp 7)]"
    by (simp_all add: stub_env_sel stamp_def rejected_entry_def)
  let ?env' = "stub_env (JObj [(''missing_keywords'', JArr [])]) (Some ''503 unavailable'')"
  have g': "generate_content ?env' (build_prompt ?env' (JStr ''Cloud role'')) = Inr (Some ''reply'')"
    by (simp add: stub_env_sel)
  have l': "loads ?env' (Some ''reply'') = Inr (JObj [(''missing_keywords'', JArr [])])"
    by (simp add: stub_env_sel)
  have ko: "set_raises ?env' ''j4'' (rejected_entry (JInt 0)) = Some ''503 unavailable''"
    by (simp add: stub_env_sel)
  from absent_score_defaults_to_zero [OF v g' l' a, of empty_world] ko
  have 3: "fst (analyze_job_posting ?env' (JsonBody (posting ''j4'' ''Cloud role'')) empty_world) =
     (error_body ''503 unavailable'', 500)"
    by blast
  from v g l a ok ko 1 2 3 show ?thesis by blast
qed

section \<open>Failures after validation\<close>

text \<open>
  Claim C5. For every validated request: when the model call raises, when the parse of
  the response raises, and when the write raises, the handler returns status 500 with
  the body \<open>{"status": "error", "message": m}\<close>, \<open>m\<close> the message of the exception, the
  same shape for the three kinds. The model is called once and never again; when the
  model call or the parse fails, no write is issued. In general a validated request
  ends with status 200 or with such a 500 response, the log as it was, after one model
  call and at most one write.
\<close>

theorem failures_after_validation:
  assumes v: "validated req job_data job_id job_description"
  shows "(generate_content env (build_prompt env job_description) = Inl m \<longrightarrow>
            analyze_job_posting env req w =
              ((error_body m, 500),
               w\<lparr>calls := calls w @ [GenerateContent (build_prompt env job_description)]\<rparr>)) \<and>
         (generate_content env (build_prompt env job_description) = Inr response_text \<and>
          loads env response_text = Inl e \<longrightarrow>
            analyze_job_posting env req w =
              ((error_body (str_exn e), 500),
               w\<lparr>calls := calls w @ [GenerateContent (build_prompt env job_description)]\<rparr>)) \<and>
         (scored env job_description response_text score_result weighted_score \<and>
          py_lt weighted_score 80 = Inr below \<and> job_id = JStr k \<and>
          set_raises env k (if below then rejected_entry weighted_score
                            else ready_entry weighted_score score_result job_data) = Some m' \<longrightarrow>
            analyze_job_posting env req w =
              ((error_body m', 500),
               w\<lparr>calls := calls w @ [GenerateContent (build_prompt env job_description),
                    DocumentSet k (if below then rejected_entry weighted_score
                                   else ready_entry weighted_score score_result job_data)]\<rparr>)) \<and>
         (snd (fst (analyze_job_posting env req w)) = 200 \<or>
          (\<exists>msg cs. fst (analyze_job_posting env req w) = (error_body msg, 500) \<and>
             application_log (snd (analyze_job_posting env req w)) = application_log w \<and>
             calls (snd (analyze_job_posting env req w)) =
               calls w @ GenerateContent (build_prompt env job_description) # cs \<and>
             length cs \<le> 1))"
proof (intro conjI impI)
  assume "generate_content env (build_prompt env job_description) = Inl m"
  with v show "analyze_job_posting env req w =
      ((error_body m, 500),
       w\<lparr>calls := calls w @ [GenerateContent (build_prompt env job_description)]\<rparr>)"
    by (simp add: validated_def analyze_job_posting_def try_body_def scoring_def Let_def
        error_body_def jsonify_def)
next
  assume "generate_content env (build_prompt env job_description) = Inr response_text \<and>
          loads env response_text = Inl e"
  with v show "analyze_job_posting env req w =
      ((error_body (str_exn e), 500),
       w\<lparr>calls := calls w @ [GenerateContent (build_prompt env job_description)]\<rparr>)"
    by (simp add: validated_def analyze_job_posting_def try_body_def scoring_def Let_def
        error_body_def jsonify_def)
next
  assume a: "scored env job_description response_text score_result weighted_score \<and>
          py_lt weighted_score 80 = Inr below \<and> job_id = JStr k \<and>
          set_raises env k (if below then rejected_entry weighted_score
                            else ready_entry weighted_score score_result job_data) = Some m'"
  then have s: "scored env job_description response_text score_result weighted_score"
    and k: "job_id = JStr k" by simp_all
  from v k have v': "validated req job_data (JStr k) job_description" by simp
  show "analyze_job_posting env req w =
      ((error_body m', 500),
       w\<lparr>calls := calls w @ [GenerateContent (build_prompt env job_description),
            DocumentSet k (if below then rejected_entry weighted_score
                           else ready_entry weighted_score score_result job_data)]\<rparr>)"
  proof (cases below)
    case True
    with a have lt: "py_lt weighted_score 80 = Inr True"
      and ko: "set_raises env k (rejected_entry weighted_score) = Some m'" by simp_all
    show ?thesis
      by (simp add: analyze_job_posting_def try_body_gate [OF v' s] gate_below [OF lt] ko True
          error_body_def jsonify_def)
  next
    case False
    with a have lt: "py_lt weighted_score 80 = Inr False"
      and ko: "set_raises env k (ready_entry weighted_score score_result job_data) = Some m'"
      by simp_all
    show ?thesis
      by (simp add: analyze_job_posting_def try_body_gate [OF v' s] gate_not_below [OF lt] ko False
          error_body_def jsonify_def)
  qed
next
  let ?R = "analyze_job_posting env req w"
  obtain r w' where t: "scoring env job_id job_data job_description w = (r, w')"
    by (cases "scoring env job_id job_data job_description w")
  with v have b: "try_body env req w = (r, w')"
    by (simp add: validated_def try_body_def)
  show "snd (fst ?R) = 200 \<or>
          (\<exists>msg cs. fst ?R = (error_body msg, 500) \<and>
             application_log (snd ?R) = application_log w \<and>
             calls (snd ?R) = calls w @ GenerateContent (build_prompt env job_description) # cs \<and>
             length cs \<le> 1)"
  proof (cases r)
    case (Inl x)
    with b have R: "?R = ((error_body (str_exn x), 500), w')"
      by (simp add: analyze_job_posting_def error_body_def jsonify_def)
    from scoring_outcome [OF t] Inl
    have "application_log w' = application_log w \<and>
          (\<exists>cs. calls w' = calls w @ GenerateContent (build_prompt env job_description) # cs \<and>
             length cs \<le> 1)"
      by auto
    with R show ?thesis by auto
  next
    case (Inr x)
    with b have "fst ?R = x" by (simp add: analyze_job_posting_def)
    with scoring_outcome [OF t] Inr show ?thesis by auto
  qed
qed

theorem failures_after_validation_witness:
  "validated (JsonBody (posting ''j5'' ''Cloud role'')) (posting ''j5'' ''Cloud role'')
     (JStr ''j5'') (JStr ''Cloud role'') \<and>
   generate_content (failing_model ''transport failure'')
     (build_prompt (failing_model ''transport failure'') (JStr ''Cloud role'')) =
     Inl ''transport failure'' \<and>
   analyze_job_posting (failing_model ''transport failure'')
     (JsonBody (posting ''j5'' ''Cloud role'')) empty_world =
     ((error_body ''transport failure'', 500),
      empty_world\<lparr>calls := calls empty_world @
         [GenerateContent (build_prompt (failing_model ''transport failure'') (JStr ''Cloud role''))]\<rparr>) \<and>
   scored (stub_env (JObj [(''weighted_score'', JInt 92)]) (Some ''503 unavailable''))
     (JStr ''Cloud role'') (Some ''reply'') (JObj [(''weighted_score'', JInt 92)]) (JInt 92) \<and>
   py_lt (JInt 92) 80 = Inr False \<and>
   set_raises (stub_env (JObj [(''weighted_score'', JInt 92)]) (Some ''503 unavailable'')) ''j5''
     (ready_entry (JInt 92) (JObj [(''weighted_score'', JInt 92)]) (posting ''j5'' ''Cloud role'')) =
     Some ''503 unavailable'' \<and>
   fst (analyze_job_posting (stub_env (JObj [(''weighted_score'', JInt 92)]) (Some ''503 unavailable''))
     (JsonBody (posting ''j5'' ''Cloud role'')) empty_world) =
     (error_body ''503 unavailable'', 500) \<and>
   generate_content (garbling_model ''Expecting value'')
     (build_prompt (garbling_model ''Expecting value'') (JStr ''Cloud role'')) =
     Inr (Some ''reply'') \<and>
   loads (garbling_model ''Expecting value'') (Some ''reply'') = Inl (Raised ''Expecting value'') \<and>
   analyze_job_posting (garbling_model ''Expecting value'')
     (JsonBody (posting ''j5'' ''Cloud role'')) empty_world =
     ((error_body ''Expecting value'', 500),
      empty_world\<lparr>calls := calls empty_world @
         [GenerateContent (build_prompt (garbling_model ''Expecting value'') (JStr ''Cloud role''))]\<rparr>)"
proof -
  let ?req = "JsonBody (posting ''j5'' ''Cloud role'')"
  let ?sr = "JObj [(''weighted_score'', JInt 92)]"
  let ?env = "stub_env ?sr (Some ''503 unavailable'')"
  have v: "validated ?req (posting ''j5'' ''Cloud role'') (JStr ''j5'') (JStr ''Cloud role'')"
    by (simp add: posting_validated)
  have g: "generate_content (failing_model ''transport failure'')
     (build_prompt (failing_model ''transport failure'') (JStr ''Cloud role'')) =
     Inl ''transport failure''"
    by (simp add: failing_model_sel)
  have s: "scored ?env (JStr ''Cloud role'') (Some ''reply'') ?sr (JInt 92)"
    by (simp add: stub_scored)
  have l: "py_lt (JInt 92) 80 = Inr False" by simp
  have ko: "set_raises ?env ''j5'' (ready_entry (JInt 92) ?sr (posting ''j5'' ''Cloud role'')) =
     Some ''503 unavailable''"
    by (simp add: stub_env_sel)
  note t = failures_after_validation [OF v]
  from t [where env = "failing_model ''transport failure''" and m = "''transport failure''"
        and w = empty_world] g
  have 1: "analyze_job_posting (failing_model ''transport failure'') ?req empty_world =
     ((error_body ''transport failure'', 500),
      empty_world\<lparr>calls := calls empty_world @
         [GenerateContent (build_prompt (failing_model ''transport failure'') (JStr ''Cloud role''))]\<rparr>)"
    by blast
  from t [where env = ?env and response_text = "Some ''reply''" and score_result = ?sr
        and weighted_score = "JInt 92" and below = False and k = "''j5''"
        and m' = "''503 unavailable''" and w = empty_world] s l ko
  have 2: "fst (analyze_job_posting ?env ?req empty_world) = (error_body ''503 unavailable'', 500)"
    by simp
  let ?bad = "garbling_model ''Expecting value''"
  have g': "generate_content ?bad (build_prompt ?bad (JStr ''Cloud role'')) = Inr (Some ''reply'')"
    by (simp add: garbling_model_sel)
  have l': "loads ?bad (Some ''reply'') = Inl (Raised ''Expecting value'')"
    by (simp add: garbling_model_sel)
  from t [where env = ?bad and response_text = "Some ''reply''" and e = "Raised ''Expecting value''"
        and w = empty_world] g' l'
  have 3: "analyze_job_posting ?bad ?req empty_world =
     ((error_body ''Expecting value'', 500),
      empty_world\<lparr>calls := calls empty_world @
         [GenerateContent (build_prompt ?bad (JStr ''Cloud role''))]\<rparr>)"
    by simp
  from v g s l ko 1 2 g' l' 3 show ?thesis by blast
qed

section \<open>The response and the write\<close>

text \<open>
  Claim C6, as amended. In every execution, a response with status 200 is returned only
  after the write of its entry has gone through, and the entry is then in the log; and
  when the write of an execution raises, the handler returns status 500 with the
  message of that exception, no score, and the log as it was.
\<close>

theorem response_200_only_after_write:
  assumes r: "analyze_job_posting env req w = (resp, w')"
  shows "(snd resp = 200 \<longrightarrow>
            (\<exists>p k doc. calls w' = calls w @ [GenerateContent p, DocumentSet k doc] \<and>
               set_raises env k doc = None \<and>
               application_log w' = (application_log w)(k \<mapsto> stamp (server_time env) doc))) \<and>
         (\<forall>k doc m. DocumentSet k doc \<in> set (drop (length (calls w)) (calls w')) \<and>
               set_raises env k doc = Some m \<longrightarrow>
            resp = (error_body m, 500) \<and> application_log w' = application_log w)"
  using handler_outcome [OF r] by auto

theorem response_200_only_after_write_witness:
  "analyze_job_posting (stub_env (JObj [(''weighted_score'', JInt 92)]) (Some ''503 unavailable''))
     (JsonBody (posting ''j1'' ''Cloud role'')) empty_world =
     ((error_body ''503 unavailable'', 500),
      empty_world\<lparr>calls :=
        [GenerateContent (build_prompt (stub_env (JObj [(''weighted_score'', JInt 92)]) (Some ''503 unavailable''))
           (JStr ''Cloud role'')),
         DocumentSet ''j1'' (ready_entry (JInt 92) (JObj [(''weighted_score'', JInt 92)])
           (posting ''j1'' ''Cloud role''))]\<rparr>) \<and>
   set_raises (stub_env (JObj [(''weighted_score'', JInt 92)]) (Some ''503 unavailable'')) ''j1''
     (ready_entry (JInt 92) (JObj [(''weighted_score'', JInt 92)]) (posting ''j1'' ''Cloud role'')) =
     Some ''503 unavailable'' \<and>
   application_log (empty_world\<lparr>calls :=
        [GenerateContent (build_prompt (stub_env (JObj [(''weighted_score'', JInt 92)]) (Some ''503 unavailable''))
           (JStr ''Cloud role'')),
         DocumentSet ''j1'' (ready_entry (JInt 92) (JObj [(''weighted_score'', JInt 92)])
           (posting ''j1'' ''Cloud role''))]\<rparr>) = application_log empty_world \<and>
   snd (fst (analyze_job_posting (stub_env (JObj [(''weighted_score'', JInt 92)]) None)
     (JsonBody (posting ''j1'' ''Cloud role'')) empty_world)) = 200 \<and>
   (\<exists>p k doc.
      calls (snd (analyze_job_posting (stub_env (JObj [(''weighted_score'', JInt 92)]) None)
        (JsonBody (posting ''j1'' ''Cloud role'')) empty_world)) =
        calls empty_world @ [GenerateContent p, DocumentSet k doc] \<and>
      set_raises (stub_env (JObj [(''weighted_score'', JInt 92)]) None) k doc = None \<and>
      application_log (snd (analyze_job_posting (stub_env (JObj [(''weighted_score'', JInt 92)]) None)
        (JsonBody (posting ''j1'' ''Cloud role'')) empty_world)) =
        (application_log empty_world)
          (k \<mapsto> stamp (server_time (stub_env (JObj [(''weighted_score'', JInt 92)]) None)) doc))"
proof -
  let ?sr = "JObj [(''weighted_score'', JInt 92)]"
  let ?env = "stub_env ?sr (Some ''503 unavailable'')"
  let ?req = "JsonBody (posting ''j1'' ''Cloud role'')"
  let ?doc = "ready_entry (JInt 92) ?sr (posting ''j1'' ''Cloud role'')"
  let ?w' = "empty_world\<lparr>calls := [GenerateContent (build_prompt ?env (JStr ''Cloud role'')),
         DocumentSet ''j1'' ?doc]\<rparr>"
  have v: "validated ?req (posting ''j1'' ''Cloud role'') (JStr ''j1'') (JStr ''Cloud role'')"
    by (simp add: posting_validated)
  have s: "scored ?env (JStr ''Cloud role'') (Some ''reply'') ?sr (JInt 92)"
    by (simp add: stub_scored)
  have l: "py_lt (JInt 92) 80 = Inr False" by simp
  have ko: "set_raises ?env ''j1'' ?doc = Some ''503 unavailable''"
    by (simp add: stub_env_sel)
  have r: "analyze_job_posting ?env ?req empty_world = ((error_body ''503 unavailable'', 500), ?w')"
    by (simp add: analyze_job_posting_def try_body_gate [OF v s] gate_not_below [OF l] ko
        error_body_def jsonify_def empty_world_def)
  have m: "DocumentSet ''j1'' ?doc \<in> set (drop (length (calls empty_world)) (calls ?w'))"
    by (simp add: empty_world_def)
  from response_200_only_after_write [OF r] m ko
  have "application_log ?w' = application_log empty_world"
    by blast
  note 1 = this
  let ?good = "stub_env ?sr None"
  obtain resp w2 where r2: "analyze_job_posting ?good ?req empty_world = (resp, w2)"
    by (cases "analyze_job_posting ?good ?req empty_world")
  then have ok: "snd resp = 200"
    by (auto simp: accepted_run)
  from response_200_only_after_write [OF r2] ok
  have "\<exists>p k doc. calls w2 = calls empty_world @ [GenerateContent p, DocumentSet k doc] \<and>
      set_raises ?good k doc = None \<and>
      application_log w2 = (application_log empty_world)(k \<mapsto> stamp (server_time ?good) doc)"
    by blast
  with r ko 1 ok show ?thesis
    unfolding r2 fst_conv snd_conv by blast
qed

text \<open>
  The claim as stated asks for an execution that returns status 200 although its write
  failed. There is none: the write of lines 74 and 87 comes before the \<^verbatim>\<open>return\<close> of
  lines 80 and 98, and an exception of the write leaves the \<^verbatim>\<open>try\<close> block.
\<close>

theorem success_after_failed_write_counterexample:
  "\<not> (\<exists>env req w k doc m.
        snd (fst (analyze_job_posting env req w)) = 200 \<and>
        DocumentSet k doc \<in> set (drop (length (calls w)) (calls (snd (analyze_job_posting env req w)))) \<and>
        set_raises env k doc = Some m)"
proof
  assume "\<exists>env req w k doc m.
        snd (fst (analyze_job_posting env req w)) = 200 \<and>
        DocumentSet k doc \<in> set (drop (length (calls w)) (calls (snd (analyze_job_posting env req w)))) \<and>
        set_raises env k doc = Some m"
  then obtain env req w k doc m where
    ok: "snd (fst (analyze_job_posting env req w)) = 200" and
    wr: "DocumentSet k doc \<in> set (drop (length (calls w)) (calls (snd (analyze_job_posting env req w))))" and
    ko: "set_raises env k doc = Some m"
    by blast
  obtain resp w' where r: "analyze_job_posting env req w = (resp, w')"
    by (cases "analyze_job_posting env req w")
  from handler_outcome [OF r] ok wr ko r show False
    by auto
qed

section \<open>The responses of a request that completes\<close>

text \<open>
  Claim C7. For every validated request that reaches the gate and completes without
  failure (the status is not 500), the response is status 200 with the body
  \<open>{"status": "rejected", "score": weighted_score}\<close> when \<open>weighted_score < 80\<close>, and status
  200 with the body \<open>{"status": "success", "score": weighted_score, "details":
  score_result}\<close> when \<open>weighted_score >= 80\<close>; the field \<open>details\<close> is in the second body
  only.
\<close>

theorem completed_request_response:
  assumes v: "validated req job_data job_id job_description"
      and s: "scored env job_description response_text score_result weighted_score"
      and c: "snd (fst (analyze_job_posting env req w)) \<noteq> 500"
  shows "(py_lt weighted_score 80 = Inr True \<longrightarrow>
            fst (analyze_job_posting env req w) =
              (JObj [(''status'', JStr ''rejected''), (''score'', weighted_score)], 200)) \<and>
         (py_ge weighted_score 80 = Inr True \<longrightarrow>
            fst (analyze_job_posting env req w) =
              (JObj [(''status'', JStr ''success''), (''score'', weighted_score),
                     (''details'', score_result)], 200))"
proof -
  let ?w1 = "w\<lparr>calls := calls w @ [GenerateContent (build_prompt env job_description)]\<rparr>"
  obtain r w' where
    gate: "application_gate env job_id job_data score_result weighted_score ?w1 = (r, w')"
    by (cases "application_gate env job_id job_data score_result weighted_score ?w1")
  with try_body_gate [OF v s, of w] have t: "try_body env req w = (r, w')"
    by simp
  have "\<exists>x. r = Inr x"
  proof (cases r)
    case (Inl e)
    with t c show ?thesis by (simp add: analyze_job_posting_def)
  qed simp
  then obtain x where x: "r = Inr x" ..
  with t have resp: "fst (analyze_job_posting env req w) = x"
    by (simp add: analyze_job_posting_def)
  from gate_outcome [OF gate] x
  have "py_lt weighted_score 80 = Inr True \<and>
          x = (JObj [(''status'', JStr ''rejected''), (''score'', weighted_score)], 200) \<or>
        py_lt weighted_score 80 = Inr False \<and>
          x = (JObj [(''status'', JStr ''success''), (''score'', weighted_score),
                     (''details'', score_result)], 200)"
    by auto
  with resp show ?thesis
    by (auto dest: py_ge_not_lt)
qed

theorem completed_request_response_witness:
  "validated (JsonBody (posting ''j1'' ''Cloud role'')) (posting ''j1'' ''Cloud role'')
     (JStr ''j1'') (JStr ''Cloud role'') \<and>
   scored (stub_env (JObj [(''weighted_score'', JInt 92), (''missing_keywords'', JArr [])]) None)
     (JStr ''Cloud role'') (Some ''reply'')
     (JObj [(''weighted_score'', JInt 92), (''missing_keywords'', JArr [])]) (JInt 92) \<and>
   snd (fst (analyze_job_posting
     (stub_env (JObj [(''weighted_score'', JInt 92), (''missing_keywords'', JArr [])]) None)
     (JsonBody (posting ''j1'' ''Cloud role'')) empty_world)) \<noteq> 500 \<and>
   py_ge (JInt 92) 80 = Inr True \<and>
   fst (analyze_job_posting
     (stub_env (JObj [(''weighted_score'', JInt 92), (''missing_keywords'', JArr [])]) None)
     (JsonBody (posting ''j1'' ''Cloud role'')) empty_world) =
     (JObj [(''status'', JStr ''success''), (''score'', JInt 92),
            (''details'', JObj [(''weighted_score'', JInt 92), (''missing_keywords'', JArr [])])],
      200) \<and>
   scored (stub_env (JObj [(''weighted_score'', JInt 35)]) None)
     (JStr ''Cloud role'') (Some ''reply'') (JObj [(''weighted_score'', JInt 35)]) (JInt 35) \<and>
   snd (fst (analyze_job_posting (stub_env (JObj [(''weighted_score'', JInt 35)]) None)
     (JsonBody (posting ''j1'' ''Cloud role'')) empty_world)) \<noteq> 500 \<and>
   py_lt (JInt 35) 80 = Inr True \<and>
   fst (analyze_job_posting (stub_env (JObj [(''weighted_score'', JInt 35)]) None)
     (JsonBody (posting ''j1'' ''Cloud role'')) empty_world) =
     (JObj [(''status'', JStr ''rejected''), (''score'', JInt 35)], 200)"
proof -
  let ?hi = "JObj [(''weighted_score'', JInt 92), (''missing_keywords'', JArr [])]"
  let ?lo = "JObj [(''weighted_score'', JInt 35)]"
  let ?req = "JsonBody (posting ''j1'' ''Cloud role'')"
  have v: "validated ?req (posting ''j1'' ''Cloud role'') (JStr ''j1'') (JStr ''Cloud role'')"
    by (simp add: posting_validated)
  have s1: "scored (stub_env ?hi None) (JStr ''Cloud role'') (Some ''reply'') ?hi (JInt 92)"
    by (simp add: stub_scored)
  have s2: "scored (stub_env ?lo None) (JStr ''Cloud role'') (Some ''reply'') ?lo (JInt 35)"
    by (simp add: stub_scored)
  have l1: "py_lt (JInt 92) 80 = Inr False" and g1: "py_ge (JInt 92) 80 = Inr True"
    and l2: "py_lt (JInt 35) 80 = Inr True"
    by simp_all
  have c1: "snd (fst (analyze_job_posting (stub_env ?hi None) ?req empty_world)) \<noteq> 500"
    by (simp add: analyze_job_posting_def try_body_gate [OF v s1] gate_not_below [OF l1]
        stub_env_sel)
  have c2: "snd (fst (analyze_job_posting (stub_env ?lo None) ?req empty_world)) \<noteq> 500"
    by (simp add: analyze_job_posting_def try_body_gate [OF v s2] gate_below [OF l2]
        stub_env_sel)
  from completed_request_response [OF v s1 c1] g1
  have r1: "fst (analyze_job_posting (stub_env ?hi None) ?req empty_world) =
     (JObj [(''status'', JStr ''success''), (''score'', JInt 92), (''details'', ?hi)], 200)"
    by blast
  from completed_request_response [OF v s2 c2] l2
  have r2: "fst (analyze_job_posting (stub_env ?lo None) ?req empty_world) =
     (JObj [(''status'', JStr ''rejected''), (''score'', JInt 35)], 200)"
    by blast
  from v s1 s2 c1 c2 g1 l2 r1 r2 show ?thesis
    by blast
qed

section \<open>The entries of the log\<close>

text \<open>
  Claim C8. Every entry of the log, after any sequence of requests served from the empty
  log, has exactly the fields of its status: \<open>status\<close>, \<open>score\<close>, \<open>reason\<close> and
  \<open>timestamp\<close> for \<open>REJECTED\<close> (no \<open>gemini_details\<close>, no \<open>job_data\<close>); \<open>status\<close>,
  \<open>score\<close>, \<open>gemini_details\<close>, \<open>job_data\<close> and \<open>timestamp\<close> for \<open>READY_FOR_SUBMISSION\<close>
  (no \<open>reason\<close>).
\<close>

theorem persisted_entries_well_formed:
  assumes "application_log (serve rs empty_world) k = Some d"
  shows "entry_ok d \<and>
         (map_of d ''status'' = Some (Plain (JStr ''REJECTED'')) \<longrightarrow>
            map_of d ''gemini_details'' = None \<and> map_of d ''job_data'' = None) \<and>
         (map_of d ''status'' = Some (Plain (JStr ''READY_FOR_SUBMISSION'')) \<longrightarrow>
            map_of d ''reason'' = None)"
proof -
  have "\<forall>k d. application_log empty_world k = Some d \<longrightarrow> entry_ok d"
    by (simp add: empty_world_def)
  from serve_keeps_entries_ok [OF this] assms have "entry_ok d"
    by blast
  with entry_ok_fields [OF this] show ?thesis by blast
qed

theorem persisted_entries_well_formed_witness:
  "application_log
     (serve [(stub_env (JObj [(''weighted_score'', JInt 35)]) None, JsonBody (posting ''j2'' ''Retail job'')),
             (stub_env (JObj [(''weighted_score'', JInt 92)]) None, JsonBody (posting ''j1'' ''Cloud role''))]
        empty_world) ''j2'' =
     Some [(''status'', Plain (JStr ''REJECTED'')), (''score'', Plain (JInt 35)),
           (''reason'', Plain (JStr ''Score below 80% threshold'')), (''timestamp'', Timestamp 7)] \<and>
   entry_ok [(''status'', Plain (JStr ''REJECTED'')), (''score'', Plain (JInt 35)),
           (''reason'', Plain (JStr ''Score below 80% threshold'')), (''timestamp'', Timestamp 7)] \<and>
   application_log
     (serve [(stub_env (JObj [(''weighted_score'', JInt 35)]) None, JsonBody (posting ''j2'' ''Retail job'')),
             (stub_env (JObj [(''weighted_score'', JInt 92)]) None, JsonBody (posting ''j1'' ''Cloud role''))]
        empty_world) ''j1'' =
     Some [(''status'', Plain (JStr ''READY_FOR_SUBMISSION'')), (''score'', Plain (JInt 92)),
           (''gemini_details'', Plain (JObj [(''weighted_score'', JInt 92)])),
           (''job_data'', Plain (posting ''j1'' ''Cloud role'')), (''timestamp'', Timestamp 7)] \<and>
   entry_ok [(''status'', Plain (JStr ''READY_FOR_SUBMISSION'')), (''score'', Plain (JInt 92)),
           (''gemini_details'', Plain (JObj [(''weighted_score'', JInt 92)])),
           (''job_data'', Plain (posting ''j1'' ''Cloud role'')), (''timestamp'', Timestamp 7)] \<and>
   map_of [(''status'', Plain (JStr ''REJECTED'')), (''score'', Plain (JInt 35)),
           (''reason'', Plain (JStr ''Score below 80% threshold'')), (''timestamp'', Timestamp 7)]
     ''gemini_details'' = None \<and>
   map_of [(''status'', Plain (JStr ''READY_FOR_SUBMISSION'')), (''score'', Plain (JInt 92)),
           (''gemini_details'', Plain (JObj [(''weighted_score'', JInt 92)])),
           (''job_data'', Plain (posting ''j1'' ''Cloud role'')), (''timestamp'', Timestamp 7)]
     ''reason'' = None"
proof -
  let ?rs = "[(stub_env (JObj [(''weighted_score'', JInt 35)]) None, JsonBody (posting ''j2'' ''Retail job'')),
             (stub_env (JObj [(''weighted_score'', JInt 92)]) None, JsonBody (posting ''j1'' ''Cloud role''))]"
  have a: "application_log (serve ?rs empty_world) ''j2'' =
     Some [(''status'', Plain (JStr ''REJECTED'')), (''score'', Plain (JInt 35)),
           (''reason'', Plain (JStr ''Score below 80% threshold'')), (''timestamp'', Timestamp 7)]"
    by (simp add: rejected_run accepted_run stamp_def rejected_entry_def)
  have b: "application_log (serve ?rs empty_world) ''j1'' =
     Some [(''status'', Plain (JStr ''READY_FOR_SUBMISSION'')), (''score'', Plain (JInt 92)),
           (''gemini_details'', Plain (JObj [(''weighted_score'', JInt 92)])),
           (''job_data'', Plain (posting ''j1'' ''Cloud role'')), (''timestamp'', Timestamp 7)]"
    by (simp add: rejected_run accepted_run stamp_def ready_entry_def)
  have c: "map_of [(''status'', Plain (JStr ''REJECTED'')), (''score'', Plain (JInt 35)),
           (''reason'', Plain (JStr ''Score below 80% threshold'')), (''timestamp'', Timestamp 7)]
     ''status'' = Some (Plain (JStr ''REJECTED''))"
    and d: "map_of [(''status'', Plain (JStr ''READY_FOR_SUBMISSION'')), (''score'', Plain (JInt 92)),
           (''gemini_details'', Plain (JObj [(''weighted_score'', JInt 92)])),
           (''job_data'', Plain (posting ''j1'' ''Cloud role'')), (''timestamp'', Timestamp 7)]
     ''status'' = Some (Plain (JStr ''READY_FOR_SUBMISSION''))"
    by simp_all
  from persisted_entries_well_formed [OF a] persisted_entries_well_formed [OF b] a b c d
  show ?thesis by blast
qed

text \<open>
  Claim C9. For two requests with the same \<open>job_id\<close> that are served one after the other
  and both write their entry, the log after the second is the log before the first with
  the second entry at \<open>job_id\<close>: one document at that key, nothing of the first entry
  left, every other key as it was; it is the log that the second request alone would
  have produced.
\<close>

theorem second_write_replaces_first:
  assumes v1: "validated req1 job_data1 (JStr k) job_description1"
      and v2: "validated req2 job_data2 (JStr k) job_description2"
      and r1: "analyze_job_posting env1 req1 w = (resp1, w1)" and ok1: "snd resp1 = 200"
      and r2: "analyze_job_posting env2 req2 w1 = (resp2, w2)" and ok2: "snd resp2 = 200"
  shows "\<exists>doc1 doc2.
           calls w2 = calls w @
             [GenerateContent (build_prompt env1 job_description1), DocumentSet k doc1,
              GenerateContent (build_prompt env2 job_description2), DocumentSet k doc2] \<and>
           application_log w1 = (application_log w)(k \<mapsto> stamp (server_time env1) doc1) \<and>
           application_log w2 = (application_log w)(k \<mapsto> stamp (server_time env2) doc2) \<and>
           application_log w2 k = Some (stamp (server_time env2) doc2) \<and>
           application_log w2 = application_log (snd (analyze_job_posting env2 req2 w))"
proof -
  from handler_outcome [OF r1] ok1
  obtain job_data' k' job_description' doc1 where
    v1': "validated req1 job_data' (JStr k') job_description'"
    and c1': "calls w1 = calls w @ [GenerateContent (build_prompt env1 job_description'), DocumentSet k' doc1]"
    and a1': "application_log w1 = (application_log w)(k' \<mapsto> stamp (server_time env1) doc1)"
    by (auto simp: error_body_def)
  from validated_unique [OF v1 v1'] c1' a1'
  have c1: "calls w1 = calls w @ [GenerateContent (build_prompt env1 job_description1), DocumentSet k doc1]"
    and a1: "application_log w1 = (application_log w)(k \<mapsto> stamp (server_time env1) doc1)"
    by simp_all
  from handler_outcome [OF r2] ok2
  obtain job_data'' k'' job_description'' response_text score_result weighted_score doc2 where
    v2': "validated req2 job_data'' (JStr k'') job_description''"
    and s2': "scored env2 job_description'' response_text score_result weighted_score"
    and n2': "set_raises env2 k'' doc2 = None"
    and c2': "calls w2 = calls w1 @ [GenerateContent (build_prompt env2 job_description''), DocumentSet k'' doc2]"
    and a2': "application_log w2 = (application_log w1)(k'' \<mapsto> stamp (server_time env2) doc2)"
    and d2': "py_lt weighted_score 80 = Inr True \<and> doc2 = rejected_entry weighted_score \<or>
             py_lt weighted_score 80 = Inr False \<and> doc2 = ready_entry weighted_score score_result job_data''"
    by (auto simp: error_body_def)
  from validated_unique [OF v2 v2'] s2' n2' c2' a2' d2'
  have s2: "scored env2 job_description2 response_text score_result weighted_score"
    and n2: "set_raises env2 k doc2 = None"
    and c2: "calls w2 = calls w1 @ [GenerateContent (build_prompt env2 job_description2), DocumentSet k doc2]"
    and a2: "application_log w2 = (application_log w1)(k \<mapsto> stamp (server_time env2) doc2)"
    and d2: "py_lt weighted_score 80 = Inr True \<and> doc2 = rejected_entry weighted_score \<or>
             py_lt weighted_score 80 = Inr False \<and> doc2 = ready_entry weighted_score score_result job_data2"
    by simp_all
  from d2 n2 have "application_log (snd (analyze_job_posting env2 req2 w)) =
      (application_log w)(k \<mapsto> stamp (server_time env2) doc2)"
    by (auto simp: handler_rejects [OF v2 s2] handler_accepts [OF v2 s2])
  with c1 a1 c2 a2 show ?thesis
    by auto
qed

theorem second_write_replaces_first_witness:
  "validated (JsonBody (posting ''j1'' ''Retail job'')) (posting ''j1'' ''Retail job'')
     (JStr ''j1'') (JStr ''Retail job'') \<and>
   validated (JsonBody (posting ''j1'' ''Cloud role'')) (posting ''j1'' ''Cloud role'')
     (JStr ''j1'') (JStr ''Cloud role'') \<and>
   snd (fst (analyze_job_posting (stub_env (JObj [(''weighted_score'', JInt 35)]) None)
     (JsonBody (posting ''j1'' ''Retail job'')) empty_world)) = 200 \<and>
   snd (fst (analyze_job_posting (stub_env (JObj [(''weighted_score'', JInt 92)]) None)
     (JsonBody (posting ''j1'' ''Cloud role''))
     (snd (analyze_job_posting (stub_env (JObj [(''weighted_score'', JInt 35)]) None)
        (JsonBody (posting ''j1'' ''Retail job'')) empty_world)))) = 200 \<and>
   (\<exists>doc1 doc2.
      application_log (snd (analyze_job_posting (stub_env (JObj [(''weighted_score'', JInt 35)]) None)
        (JsonBody (posting ''j1'' ''Retail job'')) empty_world)) =
        (application_log empty_world)(''j1'' \<mapsto> stamp 7 doc1) \<and>
      map_of doc1 ''status'' = Some (Plain (JStr ''REJECTED'')) \<and>
      application_log (snd (analyze_job_posting (stub_env (JObj [(''weighted_score'', JInt 92)]) None)
        (JsonBody (posting ''j1'' ''Cloud role''))
        (snd (analyze_job_posting (stub_env (JObj [(''weighted_score'', JInt 35)]) None)
           (JsonBody (posting ''j1'' ''Retail job'')) empty_world)))) =
        (application_log empty_world)(''j1'' \<mapsto> stamp 7 doc2) \<and>
      map_of doc2 ''status'' = Some (Plain (JStr ''READY_FOR_SUBMISSION'')) \<and>
      map_of doc2 ''reason'' = None)"
proof -
  let ?env1 = "stub_env (JObj [(''weighted_score'', JInt 35)]) None"
  let ?env2 = "stub_env (JObj [(''weighted_score'', JInt 92)]) None"
  let ?req1 = "JsonBody (posting ''j1'' ''Retail job'')"
  let ?req2 = "JsonBody (posting ''j1'' ''Cloud role'')"
  let ?doc1 = "rejected_entry (JInt 35)"
  let ?doc2 = "ready_entry (JInt 92) (JObj [(''weighted_score'', JInt 92)]) (posting ''j1'' ''Cloud role'')"
  let ?w1 = "empty_world\<lparr>calls := calls empty_world @
           [GenerateContent (build_prompt ?env1 (JStr ''Retail job'')), DocumentSet ''j1'' ?doc1],
        application_log := (application_log empty_world)(''j1'' \<mapsto> stamp 7 ?doc1)\<rparr>"
  let ?w2 = "?w1\<lparr>calls := calls ?w1 @
           [GenerateContent (build_prompt ?env2 (JStr ''Cloud role'')), DocumentSet ''j1'' ?doc2],
        application_log := (application_log ?w1)(''j1'' \<mapsto> stamp 7 ?doc2)\<rparr>"
  have v1: "validated ?req1 (posting ''j1'' ''Retail job'') (JStr ''j1'') (JStr ''Retail job'')"
    and v2: "validated ?req2 (posting ''j1'' ''Cloud role'') (JStr ''j1'') (JStr ''Cloud role'')"
    by (simp_all add: posting_validated)
  have r1: "analyze_job_posting ?env1 ?req1 empty_world =
      ((JObj [(''status'', JStr ''rejected''), (''score'', JInt 35)], 200), ?w1)"
    by (simp add: rejected_run)
  have r2: "analyze_job_posting ?env2 ?req2 ?w1 =
      ((JObj [(''status'', JStr ''success''), (''score'', JInt 92),
              (''details'', JObj [(''weighted_score'', JInt 92)])], 200), ?w2)"
    by (rule accepted_run) simp_all
  have ok1: "snd (JObj [(''status'', JStr ''rejected''), (''score'', JInt 35)], 200::nat) = 200"
    and ok2: "snd (JObj [(''status'', JStr ''success''), (''score'', JInt 92),
              (''details'', JObj [(''weighted_score'', JInt 92)])], 200::nat) = 200"
    by simp_all
  from second_write_replaces_first [OF v1 v2 r1 ok1 r2 ok2]
  obtain doc1 doc2 where
    c: "calls ?w2 = calls empty_world @
             [GenerateContent (build_prompt ?env1 (JStr ''Retail job'')), DocumentSet ''j1'' doc1,
              GenerateContent (build_prompt ?env2 (JStr ''Cloud role'')), DocumentSet ''j1'' doc2]"
    and a1: "application_log ?w1 = (application_log empty_world)(''j1'' \<mapsto> stamp (server_time ?env1) doc1)"
    and a2: "application_log ?w2 = (application_log empty_world)(''j1'' \<mapsto> stamp (server_time ?env2) doc2)"
    by blast
  from c have "doc1 = ?doc1" and "doc2 = ?doc2"
    by simp_all
  then have f: "map_of doc1 ''status'' = Some (Plain (JStr ''REJECTED''))"
    "map_of doc2 ''status'' = Some (Plain (JStr ''READY_FOR_SUBMISSION''))"
    "map_of doc2 ''reason'' = None"
    by (simp_all add: rejected_entry_def ready_entry_def)
  from a1 a2 have "application_log (snd (analyze_job_posting ?env1 ?req1 empty_world)) =
        (application_log empty_world)(''j1'' \<mapsto> stamp 7 doc1)"
    and "application_log (snd (analyze_job_posting ?env2 ?req2
          (snd (analyze_job_posting ?env1 ?req1 empty_world)))) =
        (application_log empty_world)(''j1'' \<mapsto> stamp 7 doc2)"
    unfolding r1 snd_conv r2 by (simp_all only: stub_env_sel)
  with f v1 v2 r1 r2 show ?thesis
    unfolding r1 snd_conv r2 fst_conv by blast
qed

text \<open>
  Claim C10. For every request whose body cannot be parsed (\<open>get_json\<close> raises) or is
  parsed to a value that is not an object, the handler returns status 500 with the body
  \<open>{"status": "error", "message": m}\<close>, where \<open>m\<close> is the message of the exception, and
  not the validation response; the world is as it was, so no write occurs.
\<close>

theorem unparsable_body_is_server_error:
  "(get_json req = Inl e \<longrightarrow>
      analyze_job_posting env req w = ((error_body (str_exn e), 500), w)) \<and>
   (get_json req = Inr j \<and> \<not> is_dict j \<longrightarrow>
      analyze_job_posting env req w =
        ((error_body (sq (type_name j) @ '' object has no attribute '' @ sq ''get''), 500), w))"
proof (intro conjI impI)
  assume "get_json req = Inl e"
  then show "analyze_job_posting env req w = ((error_body (str_exn e), 500), w)"
    by (simp add: analyze_job_posting_def try_body_def error_body_def jsonify_def)
next
  assume a: "get_json req = Inr j \<and> \<not> is_dict j"
  then have "dict_get j ''job_id'' JNull =
      Inl (AttributeError (sq (type_name j) @ '' object has no attribute '' @ sq ''get''))"
    by (cases j) simp_all
  with a show "analyze_job_posting env req w =
        ((error_body (sq (type_name j) @ '' object has no attribute '' @ sq ''get''), 500), w)"
    by (simp add: analyze_job_posting_def try_body_def error_body_def jsonify_def)
qed

theorem unparsable_body_is_server_error_witness:
  "get_json (BadBody ''400 Bad Request'') = Inl (Raised ''400 Bad Request'') \<and>
   analyze_job_posting (stub_env (JObj [(''weighted_score'', JInt 92)]) None)
     (BadBody ''400 Bad Request'') empty_world =
     ((error_body ''400 Bad Request'', 500), empty_world) \<and>
   get_json (JsonBody (JArr [posting ''j1'' ''Cloud role''])) = Inr (JArr [posting ''j1'' ''Cloud role'']) \<and>
   \<not> is_dict (JArr [posting ''j1'' ''Cloud role'']) \<and>
   analyze_job_posting (stub_env (JObj [(''weighted_score'', JInt 92)]) None)
     (JsonBody (JArr [posting ''j1'' ''Cloud role''])) empty_world =
     ((error_body (sq ''list'' @ '' object has no attribute '' @ sq ''get''), 500), empty_world)"
proof -
  have a: "get_json (BadBody ''400 Bad Request'') = Inl (Raised ''400 Bad Request'')" by simp
  have b: "get_json (JsonBody (JArr [posting ''j1'' ''Cloud role''])) =
      Inr (JArr [posting ''j1'' ''Cloud role''])" by simp
  have c: "\<not> is_dict (JArr [posting ''j1'' ''Cloud role''])" by simp
  note t = unparsable_body_is_server_error
  from t [where req = "BadBody ''400 Bad Request''" and e = "Raised ''400 Bad Request''"] a
  have 1: "analyze_job_posting (stub_env (JObj [(''weighted_score'', JInt 92)]) None)
     (BadBody ''400 Bad Request'') empty_world = ((error_body ''400 Bad Request'', 500), empty_world)"
    by simp
  from t [where req = "JsonBody (JArr [posting ''j1'' ''Cloud role''])"
        and j = "JArr [posting ''j1'' ''Cloud role'']"] b c
  have 2: "analyze_job_posting (stub_env (JObj [(''weighted_score'', JInt 92)]) None)
     (JsonBody (JArr [posting ''j1'' ''Cloud role''])) empty_world =
     ((error_body (sq ''list'' @ '' object has no attribute '' @ sq ''get''), 500), empty_world)"
    by simp
  from a b c 1 2 show ?thesis by simp
qed

end
